theory Spec2Isabelle
  imports Main "HOL-Library.AList"
begin

text \<open>
  The module \<^verbatim>\<open>pydata_sphinx_theme/__init__.py\<close> connects two hooks to the documentation
  builder: \<^verbatim>\<open>update_config\<close>, run once when the builder is ready, and
  \<^verbatim>\<open>update_and_remove_templates\<close>, run for every page. Both change dictionaries in
  place, log warnings, register assets and may raise. Here each block of statements of a
  hook is a function from the state to the state it leaves and the exception it raises,
  if any; a hook is the sequence of its blocks, stopped by the first exception.
\<close>

section \<open>Python values\<close>

text \<open>
  The theme works on the option values of a \<^verbatim>\<open>conf.py\<close>, on the per-page render
  context and on a parsed JSON manifest. All three are nested Python values; the model
  keeps \<^verbatim>\<open>None\<close>, booleans, (unbounded) integers, strings, lists and dictionaries
  with string keys. A dictionary is an association list in insertion order.
\<close>

datatype pyval =
    PNone
  | PBool bool
  | PInt int
  | PStr string
  | PList "pyval list"
  | PDict "(string \<times> pyval) list"

type_synonym pydict = "(string \<times> pyval) list"

text \<open>Truth value of an object, as \<^verbatim>\<open>if x:\<close> tests it.\<close>

fun truthy :: "pyval \<Rightarrow> bool" where
  "truthy PNone = False"
| "truthy (PBool b) = b"
| "truthy (PInt i) = (i \<noteq> 0)"
| "truthy (PStr s) = (s \<noteq> [])"
| "truthy (PList xs) = (xs \<noteq> [])"
| "truthy (PDict d) = (d \<noteq> [])"

fun isinstance_dict :: "pyval \<Rightarrow> bool" where
  "isinstance_dict (PDict d) = True"
| "isinstance_dict v = False"

fun isinstance_list :: "pyval \<Rightarrow> bool" where
  "isinstance_list (PList xs) = True"
| "isinstance_list v = False"

text \<open>\<^verbatim>\<open>d.get(k, default)\<close>, \<^verbatim>\<open>d.get(k)\<close>, \<^verbatim>\<open>k in d\<close> and \<^verbatim>\<open>d[k] = v\<close>.\<close>

definition dict_get_default :: "pydict \<Rightarrow> string \<Rightarrow> pyval \<Rightarrow> pyval" where
  "dict_get_default d k dflt = (case map_of d k of None \<Rightarrow> dflt | Some v \<Rightarrow> v)"

definition dict_get :: "pydict \<Rightarrow> string \<Rightarrow> pyval" where
  "dict_get d k = dict_get_default d k PNone"

definition dict_has :: "pydict \<Rightarrow> string \<Rightarrow> bool" where
  "dict_has d k = (map_of d k \<noteq> None)"

definition dict_set :: "string \<Rightarrow> pyval \<Rightarrow> pydict \<Rightarrow> pydict" where
  "dict_set k v d = AList.update k v d"

text \<open>\<^verbatim>\<open>type(x).__name__\<close> and the text an f-string prints for \<^verbatim>\<open>type(x)\<close>.\<close>

fun type_name :: "pyval \<Rightarrow> string" where
  "type_name PNone = ''NoneType''"
| "type_name (PBool b) = ''bool''"
| "type_name (PInt i) = ''int''"
| "type_name (PStr s) = ''str''"
| "type_name (PList xs) = ''list''"
| "type_name (PDict d) = ''dict''"

definition class_repr :: "pyval \<Rightarrow> string" where
  "class_repr v = ''<class '' @ [CHR 0x27] @ type_name v @ [CHR 0x27] @ ''>''"

section \<open>String operations of the standard library\<close>

text \<open>
  A string is a list of characters; a character stands for a code point below 256.
  \<^verbatim>\<open>str.strip()\<close> removes the characters for which \<^verbatim>\<open>str.isspace\<close> holds.
\<close>

definition is_space :: "char \<Rightarrow> bool" where
  "is_space c = (c \<in> set [CHR 0x09, CHR 0x0A, CHR 0x0B, CHR 0x0C, CHR 0x0D,
                           CHR 0x1C, CHR 0x1D, CHR 0x1E, CHR 0x1F, CHR 0x20,
                           CHR 0x85, CHR 0xA0])"

definition strip_with :: "(char \<Rightarrow> bool) \<Rightarrow> string \<Rightarrow> string" where
  "strip_with P s = rev (dropWhile P (rev (dropWhile P s)))"

definition strip :: "string \<Rightarrow> string" where
  "strip s = strip_with is_space s"

text \<open>\<^verbatim>\<open>s.split(sep)\<close> for a one-character separator: one more piece than separators.\<close>

fun split_on :: "char \<Rightarrow> string \<Rightarrow> string list" where
  "split_on c [] = [[]]"
| "split_on c (x # xs) =
     (if x = c then [] # split_on c xs
      else (case split_on c xs of
              [] \<Rightarrow> [[x]]
            | w # ws \<Rightarrow> (x # w) # ws))"

definition endswith :: "string \<Rightarrow> string \<Rightarrow> bool" where
  "endswith s t = (length t \<le> length s \<and> drop (length s - length t) s = t)"

text \<open>\<^verbatim>\<open>needle in haystack\<close> on strings.\<close>

fun contains_str :: "string \<Rightarrow> string \<Rightarrow> bool" where
  "contains_str n [] = (n = [])"
| "contains_str n (h # hs) = (take (length n) (h # hs) = n \<or> contains_str n hs)"

text \<open>
  The extension \<^verbatim>\<open>os.path.splitext(p)[1]\<close> (POSIX flavour): the text from the last dot
  of the last path component on, unless that component has nothing but dots in front of it.
\<close>

definition last_component :: "string \<Rightarrow> string" where
  "last_component p = rev (takeWhile (\<lambda>c. c \<noteq> CHR ''/'') (rev p))"

definition splitext_ext :: "string \<Rightarrow> string" where
  "splitext_ext p =
     (if CHR ''.'' \<in> set (dropWhile (\<lambda>c. c = CHR ''.'') (last_component p))
      then CHR ''.'' # rev (takeWhile (\<lambda>c. c \<noteq> CHR ''.'') (rev p))
      else [])"

text \<open>\<^verbatim>\<open>str.lower()\<close> on the ASCII letters.\<close>

definition lower_char :: "char \<Rightarrow> char" where
  "lower_char c =
     (let n = (of_char c :: nat) in if 65 \<le> n \<and> n \<le> 90 then char_of (n + 32) else c)"

definition lower :: "string \<Rightarrow> string" where
  "lower s = map lower_char s"

section \<open>Exceptions, warnings and the world outside the theme\<close>

datatype exc_class =
    ExtensionError
  | ValueError
  | KeyError
  | TypeError
  | AttributeError
  | RuntimeError
  | JSONDecodeError
  | ConnectionError
  | HTTPError
  | RetryError
  | FileNotFoundError
  | OtherException

text \<open>An exception is its class and its message (for a \<^verbatim>\<open>KeyError\<close>: the key).\<close>

datatype exn = Exn exc_class string

fun exn_class :: "exn \<Rightarrow> exc_class" where
  "exn_class (Exn c m) = c"

text \<open>
  One constructor for each \<^verbatim>\<open>logger.warning\<close> call of \<^verbatim>\<open>update_config\<close>, in
  source order. The two switcher warnings carry the \<^verbatim>\<open>json_url\<close> they print; the first
  of them also the exception whose \<^verbatim>\<open>repr\<close> it prints.
\<close>

datatype warning =
    LogoTextDeprecated
  | FooterItemsDeprecated
  | FaviconsDeprecated
  | NavigationWithKeysDefault
  | SwitcherUnreadable pyval exn
  | SwitcherMalformed pyval

fun is_switcher_warning :: "warning \<Rightarrow> bool" where
  "is_switcher_warning (SwitcherUnreadable u e) = True"
| "is_switcher_warning (SwitcherMalformed u) = True"
| "is_switcher_warning w = False"

text \<open>Reads of the network and of the source directory, in the order they happen.\<close>

datatype io_event = HttpGet pyval | FileRead pyval

text \<open>Calls of \<^verbatim>\<open>app.add_js_file\<close> and \<^verbatim>\<open>app.add_css_file\<close>: the file name and the keywords.\<close>

datatype asset = JsFile pyval pydict | CssFile pyval pydict

text \<open>
  What the functions read from outside this module, as parameters:
  \<^item> \<^verbatim>\<open>utils.config_provided_by_user(app, name)\<close> (defined in the module \<^verbatim>\<open>utils\<close>, which
    is not modelled);
  \<^item> \<^verbatim>\<open>urlparse(json_url).scheme\<close>;
  \<^item> \<^verbatim>\<open>requests.get(json_url)\<close>, \<^verbatim>\<open>raise_for_status()\<close> and \<^verbatim>\<open>.text\<close>: the body, or
    the exception either call raises;
  \<^item> \<^verbatim>\<open>Path(app.srcdir, json_url).read_text()\<close>;
  \<^item> \<^verbatim>\<open>json.loads\<close>;
  \<^item> the text \<^verbatim>\<open>str(x)\<close> an f-string prints for a value;
  \<^item> \<^verbatim>\<open>app.builder.templates.render(tname, context)\<close>;
  \<^item> \<^verbatim>\<open>Path(href).suffix\<close>.
\<close>

record env =
  config_provided_by_user :: "string \<Rightarrow> bool"
  urlparse_scheme :: "pyval \<Rightarrow> exn + string"
  requests_get :: "pyval \<Rightarrow> exn + string"
  read_text :: "pyval \<Rightarrow> exn + string"
  json_loads :: "string \<Rightarrow> exn + pyval"
  format_value :: "pyval \<Rightarrow> string"
  render_template :: "string \<Rightarrow> pydict \<Rightarrow> exn + string"
  path_suffix :: "pyval \<Rightarrow> exn + string"

text \<open>
  The application as the two hooks see and change it: the theme options (the dictionary
  that \<^verbatim>\<open>utils.get_theme_options_dict(app)\<close> hands out), three values of
  \<^verbatim>\<open>app.config\<close>, the registered assets, the warnings logged and the reads made so
  far.
\<close>

record app_state =
  theme_options :: pydict
  html_permalinks_icon :: pyval
  fontawesome_included :: pyval
  extensions :: "string list"
  assets :: "asset list"
  warnings :: "warning list"
  io_trace :: "io_event list"

text \<open>
  A block of statements takes the state and returns the state it leaves behind, together
  with the exception it raised, if any: the dictionaries are changed in place and the log
  is written as the code runs, so both keep what was done before a \<^verbatim>\<open>raise\<close>.
\<close>

fun run_steps :: "('s \<Rightarrow> 's \<times> exn option) list \<Rightarrow> 's \<Rightarrow> 's \<times> exn option" where
  "run_steps [] s = (s, None)"
| "run_steps (f # fs) s =
     (case f s of
        (s', None) \<Rightarrow> run_steps fs s'
      | (s', Some e) \<Rightarrow> (s', Some e))"

definition warn :: "warning \<Rightarrow> app_state \<Rightarrow> app_state" where
  "warn w s = s\<lparr>warnings := warnings s @ [w]\<rparr>"

definition set_option :: "string \<Rightarrow> pyval \<Rightarrow> app_state \<Rightarrow> app_state" where
  "set_option k v s = s\<lparr>theme_options := dict_set k v (theme_options s)\<rparr>"

definition add_asset :: "asset \<Rightarrow> app_state \<Rightarrow> app_state" where
  "add_asset a s = s\<lparr>assets := assets s @ [a]\<rparr>"

section \<open>\<^verbatim>\<open>update_config\<close>\<close>

subsection \<open>Deprecated options and the new default (lines 30 to 63)\<close>

text \<open>
  \<^verbatim>\<open>logo = theme_options.get("logo", {}); logo["text"] = ...\<close>: the item assignment
  needs a dictionary and raises \<^verbatim>\<open>TypeError\<close> on every other value the option holds.
\<close>

definition deprecated_logo_text :: "app_state \<Rightarrow> app_state \<times> exn option" where
  "deprecated_logo_text s =
     (let opts = theme_options s in
      if truthy (dict_get opts ''logo_text'') then
        (case dict_get_default opts ''logo'' (PDict []) of
           PDict logo \<Rightarrow>
             (warn LogoTextDeprecated
                (set_option ''logo'' (PDict (dict_set ''text'' (dict_get opts ''logo_text'') logo)) s),
              None)
         | PList xs \<Rightarrow>
             (s, Some (Exn TypeError ''list indices must be integers or slices, not str''))
         | v \<Rightarrow>
             (s, Some (Exn TypeError
                (CHR 0x27 # type_name v @ CHR 0x27 # '' object does not support item assignment''))))
      else (s, None))"

definition deprecated_footer_items :: "app_state \<Rightarrow> app_state \<times> exn option" where
  "deprecated_footer_items s =
     (let opts = theme_options s in
      if truthy (dict_get opts ''footer_items'') then
        (warn FooterItemsDeprecated
           (set_option ''footer_start'' (dict_get opts ''footer_items'') s), None)
      else (s, None))"

definition deprecated_favicons :: "app_state \<Rightarrow> app_state \<times> exn option" where
  "deprecated_favicons s =
     (if truthy (dict_get (theme_options s) ''favicons'') then (warn FaviconsDeprecated s, None)
      else (s, None))"

definition navigation_with_keys_default :: "app_state \<Rightarrow> app_state \<times> exn option" where
  "navigation_with_keys_default s =
     (if dict_get_default (theme_options s) ''navigation_with_keys'' PNone = PNone then
        (set_option ''navigation_with_keys'' (PBool False) (warn NavigationWithKeysDefault s), None)
      else (s, None))"

subsection \<open>Validation of \<^verbatim>\<open>icon_links\<close> and the permalink icon (lines 65 to 74)\<close>

definition icon_links_message :: "pyval \<Rightarrow> string" where
  "icon_links_message v =
     ''`icon_links` must be a list of dictionaries, you provided type '' @ class_repr v @ ''.''"

definition validate_icon_links :: "app_state \<Rightarrow> app_state \<times> exn option" where
  "validate_icon_links s =
     (if \<not> isinstance_list (dict_get_default (theme_options s) ''icon_links'' (PList [])) then
        (s, Some (Exn ExtensionError (icon_links_message (dict_get (theme_options s) ''icon_links''))))
      else (s, None))"

definition default_permalinks_icon :: "env \<Rightarrow> app_state \<Rightarrow> app_state \<times> exn option" where
  "default_permalinks_icon env s =
     (if \<not> config_provided_by_user env ''html_permalinks_icon'' then
        (s\<lparr>html_permalinks_icon := PStr ''#''\<rparr>, None)
      else (s, None))"

subsection \<open>The version switcher file (lines 76 to 118)\<close>

text \<open>
  Iterating a value (\<^verbatim>\<open>for e in x\<close>): the elements of a list, the characters of a
  string, the keys of a dictionary; \<^verbatim>\<open>TypeError\<close> on the other values.
\<close>

fun py_iter :: "pyval \<Rightarrow> exn + pyval list" where
  "py_iter (PList xs) = Inr xs"
| "py_iter (PStr s) = Inr (map (\<lambda>c. PStr [c]) s)"
| "py_iter (PDict d) = Inr (map (\<lambda>kv. PStr (fst kv)) d)"
| "py_iter v = Inl (Exn TypeError (CHR 0x27 # type_name v @ CHR 0x27 # '' object is not iterable''))"

text \<open>\<^verbatim>\<open>k in e\<close> for a string \<^verbatim>\<open>k\<close>: a key of a dictionary, an element of a list, a
  substring of a string; \<^verbatim>\<open>TypeError\<close> on the other values.\<close>

fun py_contains :: "pyval \<Rightarrow> string \<Rightarrow> exn + bool" where
  "py_contains (PDict d) k = Inr (dict_has d k)"
| "py_contains (PList xs) k = Inr (PStr k \<in> set xs)"
| "py_contains (PStr s) k = Inr (contains_str k s)"
| "py_contains v k =
     Inl (Exn TypeError (''argument of type '' @ CHR 0x27 # type_name v @ CHR 0x27 # '' is not iterable''))"

text \<open>The list comprehension \<^verbatim>\<open>[k not in e for e in es]\<close>.\<close>

fun not_in_each :: "string \<Rightarrow> pyval list \<Rightarrow> exn + bool list" where
  "not_in_each k [] = Inr []"
| "not_in_each k (e # es) =
     (case py_contains e k of
        Inl x \<Rightarrow> Inl x
      | Inr b \<Rightarrow>
          (case not_in_each k es of
             Inl x \<Rightarrow> Inl x
           | Inr bs \<Rightarrow> Inr ((\<not> b) # bs)))"

text \<open>\<^verbatim>\<open>any([k not in e for e in switcher_content])\<close>.\<close>

definition any_missing :: "string \<Rightarrow> pyval \<Rightarrow> exn + bool" where
  "any_missing k switcher_content =
     (case py_iter switcher_content of
        Inl x \<Rightarrow> Inl x
      | Inr es \<Rightarrow>
          (case not_in_each k es of
             Inl x \<Rightarrow> Inl x
           | Inr bs \<Rightarrow> Inr (True \<in> set bs)))"

text \<open>The \<^verbatim>\<open>else\<close> branch of \<^verbatim>\<open>if reading_error is not None\<close> (lines 109 to 118).\<close>

definition check_switcher_content ::
  "env \<Rightarrow> pyval \<Rightarrow> string \<Rightarrow> app_state \<Rightarrow> app_state \<times> exn option" where
  "check_switcher_content env json_url content s =
     (case json_loads env content of
        Inl x \<Rightarrow> (s, Some x)
      | Inr switcher_content \<Rightarrow>
          (case any_missing ''url'' switcher_content of
             Inl x \<Rightarrow> (s, Some x)
           | Inr missing_url \<Rightarrow>
               (case any_missing ''version'' switcher_content of
                  Inl x \<Rightarrow> (s, Some x)
                | Inr missing_version \<Rightarrow>
                    if missing_url \<or> missing_version
                    then (warn (SwitcherMalformed json_url) s, None)
                    else (s, None))))"

text \<open>
  The two \<^verbatim>\<open>try\<close> statements (lines 89 to 107). An exception of a class the
  \<^verbatim>\<open>except\<close> clause names becomes the reading error and one warning; any other
  exception leaves the function.
\<close>

definition read_and_check_switcher ::
  "env \<Rightarrow> pyval \<Rightarrow> app_state \<Rightarrow> app_state \<times> exn option" where
  "read_and_check_switcher env json_url s =
     (case urlparse_scheme env json_url of
        Inl x \<Rightarrow> (s, Some x)
      | Inr scheme \<Rightarrow>
          if scheme \<in> set [''http'', ''https''] then
            (let s1 = s\<lparr>io_trace := io_trace s @ [HttpGet json_url]\<rparr> in
             case requests_get env json_url of
               Inr content \<Rightarrow> check_switcher_content env json_url content s1
             | Inl e \<Rightarrow>
                 if exn_class e \<in> set [ConnectionError, HTTPError, RetryError]
                 then (warn (SwitcherUnreadable json_url e) s1, None)
                 else (s1, Some e))
          else
            (let s1 = s\<lparr>io_trace := io_trace s @ [FileRead json_url]\<rparr> in
             case read_text env json_url of
               Inr content \<Rightarrow> check_switcher_content env json_url content s1
             | Inl e \<Rightarrow>
                 if exn_class e = FileNotFoundError
                 then (warn (SwitcherUnreadable json_url e) s1, None)
                 else (s1, Some e)))"

definition check_switcher_file :: "env \<Rightarrow> app_state \<Rightarrow> app_state \<times> exn option" where
  "check_switcher_file env s =
     (let is_dict = isinstance_dict (dict_get (theme_options s) ''switcher'');
          should_test = dict_get_default (theme_options s) ''check_switcher'' (PBool True)
      in if is_dict \<and> truthy should_test then
           (case dict_get (theme_options s) ''switcher'' of
              PDict theme_switcher \<Rightarrow>
                (case map_of theme_switcher ''json_url'' of
                   None \<Rightarrow> (s, Some (Exn KeyError ''json_url''))
                 | Some json_url \<Rightarrow>
                     (case map_of theme_switcher ''version_match'' of
                        None \<Rightarrow> (s, Some (Exn KeyError ''version_match''))
                      | Some version_match \<Rightarrow> read_and_check_switcher env json_url s))
            | v \<Rightarrow> (s, None))
         else (s, None))"

subsection \<open>Analytics and the ABlog default (lines 120 to 154)\<close>

definition gid_script :: "string \<Rightarrow> string" where
  "gid_script gid =
     [CHR 0x0A] @ ''window.dataLayer = window.dataLayer || [];'' @
     [CHR 0x0A] @ ''function gtag(){ dataLayer.push(arguments); }'' @
     [CHR 0x0A] @ ''gtag('' @ [CHR 0x27] @ ''js'' @ [CHR 0x27] @ '', new Date());'' @
     [CHR 0x0A] @ ''gtag('' @ [CHR 0x27] @ ''config'' @ [CHR 0x27] @ '', '' @
                  [CHR 0x27] @ gid @ [CHR 0x27] @ '');'' @
     [CHR 0x0A]"

text \<open>
  \<^verbatim>\<open>analytics.get\<close> exists on a dictionary only: a truthy value of another type raises
  \<^verbatim>\<open>AttributeError\<close>. (The script text is kept without the indentation of its lines.)
\<close>

definition add_analytics :: "env \<Rightarrow> app_state \<Rightarrow> app_state \<times> exn option" where
  "add_analytics env s =
     (let analytics = dict_get_default (theme_options s) ''analytics'' (PDict []) in
      if truthy analytics then
        (case analytics of
           PDict a \<Rightarrow>
             (let plausible_domain = dict_get a ''plausible_analytics_domain'';
                  plausible_url = dict_get a ''plausible_analytics_url'';
                  s1 = (if truthy plausible_domain \<and> truthy plausible_url
                        then add_asset (JsFile plausible_url
                               [(''loading_method'', PStr ''defer''),
                                (''data-domain'', plausible_domain)]) s
                        else s);
                  gid = dict_get a ''google_analytics_id''
              in if truthy gid then
                   (add_asset (JsFile PNone [(''body'', PStr (gid_script (format_value env gid)))])
                      (add_asset (JsFile
                          (PStr (''https://www.googletagmanager.com/gtag/js?id='' @ format_value env gid))
                          [(''loading_method'', PStr ''async'')]) s1),
                    None)
                 else (s1, None))
         | v \<Rightarrow>
             (s, Some (Exn AttributeError
                (CHR 0x27 # type_name v @ CHR 0x27 # '' object has no attribute '' @
                 CHR 0x27 # ''get'' @ [CHR 0x27]))))
      else (s, None))"

definition ablog_default :: "env \<Rightarrow> app_state \<Rightarrow> app_state \<times> exn option" where
  "ablog_default env s =
     (let fa_provided = config_provided_by_user env ''fontawesome_included'' in
      if ''ablog'' \<in> set (extensions s) \<and> \<not> fa_provided
      then (s\<lparr>fontawesome_included := PBool True\<rparr>, None)
      else (s, None))"

subsection \<open>Icon link shortcuts (lines 156 to 178)\<close>

definition shortcuts :: "(string \<times> string \<times> string) list" where
  "shortcuts =
     [(''twitter_url'', ''fa-brands fa-square-twitter'', ''Twitter''),
      (''bitbucket_url'', ''fa-brands fa-bitbucket'', ''Bitbucket''),
      (''gitlab_url'', ''fa-brands fa-square-gitlab'', ''GitLab''),
      (''github_url'', ''fa-brands fa-square-github'', ''GitHub'')]"

definition shortcut_entry :: "pydict \<Rightarrow> string \<times> string \<times> string \<Rightarrow> pyval" where
  "shortcut_entry opts sc =
     (case sc of (url, icon, name) \<Rightarrow>
        PDict [(''url'', dict_get opts url), (''icon'', PStr icon), (''name'', PStr name),
               (''type'', PStr ''fontawesome'')])"

text \<open>The \<^verbatim>\<open>for\<close> loop: each shortcut that is set goes to index 0 of the list.\<close>

fun insert_shortcuts :: "pydict \<Rightarrow> (string \<times> string \<times> string) list \<Rightarrow> pyval list \<Rightarrow> pyval list" where
  "insert_shortcuts opts [] icon_links = icon_links"
| "insert_shortcuts opts (sc # rest) icon_links =
     insert_shortcuts opts rest
       (if truthy (dict_get opts (fst sc)) then shortcut_entry opts sc # icon_links
        else icon_links)"

text \<open>
  \<^verbatim>\<open>icon_links.insert\<close> exists on a list only; after \<open>validate_icon_links\<close> the option
  is a list or absent, and the other branch is there for the block taken alone.
\<close>

definition icon_link_shortcuts :: "app_state \<Rightarrow> app_state \<times> exn option" where
  "icon_link_shortcuts s =
     (let opts = theme_options s in
      case dict_get_default opts ''icon_links'' (PList []) of
        PList icon_links \<Rightarrow>
          (set_option ''icon_links'' (PList (insert_shortcuts opts shortcuts icon_links)) s, None)
      | v \<Rightarrow>
          if list_ex (\<lambda>sc. truthy (dict_get opts (fst sc))) shortcuts
          then (s, Some (Exn AttributeError
                  (CHR 0x27 # type_name v @ CHR 0x27 # '' object has no attribute '' @
                   CHR 0x27 # ''insert'' @ [CHR 0x27])))
          else (set_option ''icon_links'' v s, None))"

subsection \<open>The logo dictionary (lines 180 to 187)\<close>

definition logo_message :: "pyval \<Rightarrow> string" where
  "logo_message v = ''Incorrect logo config type: '' @ class_repr v"

definition prepare_logo :: "app_state \<Rightarrow> app_state \<times> exn option" where
  "prepare_logo s =
     (let theme_logo = dict_get (theme_options s) ''logo'';
          theme_logo = (if \<not> truthy theme_logo then PDict [] else theme_logo)
      in if \<not> isinstance_dict theme_logo
         then (s, Some (Exn ValueError (logo_message theme_logo)))
         else (set_option ''logo'' theme_logo s, None))"

subsection \<open>The whole function\<close>

definition update_config :: "env \<Rightarrow> app_state \<Rightarrow> app_state \<times> exn option" where
  "update_config env =
     run_steps
       [deprecated_logo_text,
        deprecated_footer_items,
        deprecated_favicons,
        navigation_with_keys_default,
        validate_icon_links,
        default_permalinks_icon env,
        check_switcher_file env,
        add_analytics env,
        ablog_default env,
        icon_link_shortcuts,
        prepare_logo]"

section \<open>\<^verbatim>\<open>update_and_remove_templates\<close>\<close>

text \<open>The hook works on the application and on the render context of one page.\<close>

record page_state =
  page_app :: app_state
  page_context :: pydict

definition version :: string where
  "version = ''0.14.2dev0''"

definition template_sections :: "string list" where
  "template_sections =
     [''theme_navbar_start'',
      ''theme_navbar_center'',
      ''theme_navbar_persistent'',
      ''theme_navbar_end'',
      ''theme_article_header_start'',
      ''theme_article_header_end'',
      ''theme_article_footer_items'',
      ''theme_content_footer_items'',
      ''theme_footer_start'',
      ''theme_footer_center'',
      ''theme_footer_end'',
      ''theme_secondary_sidebar_items'',
      ''theme_primary_sidebar_end'',
      ''sidebars'']"

subsection \<open>Template sections (lines 211 to 236)\<close>

text \<open>Lines 214 to 217: a string is broken at its commas, each piece stripped.\<close>

definition split_templates :: "string \<Rightarrow> pyval" where
  "split_templates s = PList (map (\<lambda>ii. PStr (strip ii)) (split_on CHR '','' s))"

text \<open>
  Lines 220 to 222 on a list: the templates in order, each without an extension getting
  \<^verbatim>\<open>.html\<close>, in place. \<^verbatim>\<open>os.path.splitext\<close> raises \<^verbatim>\<open>TypeError\<close> on an entry that is
  no string; the entries before it have been rewritten by then.
\<close>

definition add_html :: "string \<Rightarrow> string" where
  "add_html template = (if splitext_ext template = [] then template @ ''.html'' else template)"

fun add_suffixes :: "pyval list \<Rightarrow> pyval list \<times> exn option" where
  "add_suffixes [] = ([], None)"
| "add_suffixes (PStr template # ts) =
     (case add_suffixes ts of (ts', e) \<Rightarrow> (PStr (add_html template) # ts', e))"
| "add_suffixes (v # ts) =
     (v # ts, Some (Exn TypeError
        (''expected str, bytes or os.PathLike object, not '' @ type_name v)))"

text \<open>
  The same lines on whatever the section holds. The keys of a dictionary are walked like
  the entries of a list; the assignment for a key without an extension adds the integer
  key \<^verbatim>\<open>ii\<close> to the dictionary, and the next step of the iteration raises
  \<^verbatim>\<open>RuntimeError\<close> (the added key is not kept in the state returned with the exception).
  A string cannot be assigned to by index, and the remaining values cannot be enumerated.
\<close>

fun suffix_section :: "pyval \<Rightarrow> pyval \<times> exn option" where
  "suffix_section (PList ts) = (case add_suffixes ts of (ts', e) \<Rightarrow> (PList ts', e))"
| "suffix_section (PDict d) =
     (if list_ex (\<lambda>kv. splitext_ext (fst kv) = []) d
      then (PDict d, Some (Exn RuntimeError ''dictionary changed size during iteration''))
      else (PDict d, None))"
| "suffix_section (PStr s) =
     (if s = [] then (PStr s, None)
      else (PStr s, Some (Exn TypeError
              (CHR 0x27 # ''str'' @ CHR 0x27 # '' object does not support item assignment''))))"
| "suffix_section v =
     (v, Some (Exn TypeError (CHR 0x27 # type_name v @ CHR 0x27 # '' object is not iterable'')))"

text \<open>
  \<^verbatim>\<open>_remove_empty_templates\<close> (lines 225 to 234): a template is dropped when it renders to
  nothing but white space; the two templates of the skip list are never rendered.
\<close>

definition skip_empty_template_checks :: "string list" where
  "skip_empty_template_checks = [''sidebar-nav-bs.html'', ''navbar-nav.html'']"

definition remove_empty_templates :: "env \<Rightarrow> pydict \<Rightarrow> pyval \<Rightarrow> exn + bool" where
  "remove_empty_templates env c t =
     (case t of
        PStr tname \<Rightarrow>
          if \<not> list_ex (\<lambda>temp. endswith tname temp) skip_empty_template_checks then
            (case render_template env tname c of
               Inl x \<Rightarrow> Inl x
             | Inr rendered \<Rightarrow> if length (strip rendered) = 0 then Inr False else Inr True)
          else Inr True
      | v \<Rightarrow>
          Inl (Exn AttributeError
            (CHR 0x27 # type_name v @ CHR 0x27 # '' object has no attribute '' @
             CHR 0x27 # ''endswith'' @ [CHR 0x27])))"

text \<open>\<^verbatim>\<open>list(filter(_remove_empty_templates, ...))\<close> (line 236).\<close>

fun filter_templates :: "env \<Rightarrow> pydict \<Rightarrow> pyval list \<Rightarrow> exn + pyval list" where
  "filter_templates env c [] = Inr []"
| "filter_templates env c (t # ts) =
     (case remove_empty_templates env c t of
        Inl x \<Rightarrow> Inl x
      | Inr keep \<Rightarrow>
          (case filter_templates env c ts of
             Inl x \<Rightarrow> Inl x
           | Inr kept \<Rightarrow> Inr (if keep then t # kept else kept)))"

text \<open>The body of the loop over the sections, for one section.\<close>

definition process_section :: "env \<Rightarrow> string \<Rightarrow> page_state \<Rightarrow> page_state \<times> exn option" where
  "process_section env section p =
     (let c = page_context p in
      if truthy (dict_get c section) then
        (let c1 = (case dict_get c section of
                     PStr s \<Rightarrow> dict_set section (split_templates s) c
                   | v \<Rightarrow> c)
         in case suffix_section (dict_get c1 section) of
              (v2, Some e) \<Rightarrow> (p\<lparr>page_context := dict_set section v2 c1\<rparr>, Some e)
            | (v2, None) \<Rightarrow>
                (let c2 = dict_set section v2 c1 in
                 case py_iter v2 of
                   Inl x \<Rightarrow> (p\<lparr>page_context := c2\<rparr>, Some x)
                 | Inr ts \<Rightarrow>
                     (case filter_templates env c2 ts of
                        Inl x \<Rightarrow> (p\<lparr>page_context := c2\<rparr>, Some x)
                      | Inr kept \<Rightarrow>
                          (p\<lparr>page_context := dict_set section (PList kept) c2\<rparr>, None))))
      else (p, None))"

subsection \<open>The duplicate theme stylesheet (lines 238 to 244)\<close>

definition theme_css_name :: string where
  "theme_css_name = ''_static/styles/pydata-sphinx-theme.css''"

text \<open>
  \<^verbatim>\<open>list.remove\<close> takes out the first element equal to its argument. The membership test
  also succeeds on a string or a dictionary, which have no \<^verbatim>\<open>remove\<close>.
\<close>

definition remove_theme_css :: "page_state \<Rightarrow> page_state \<times> exn option" where
  "remove_theme_css p =
     (let c = page_context p in
      if dict_has c ''css_files'' then
        (case py_contains (dict_get c ''css_files'') theme_css_name of
           Inl x \<Rightarrow> (p, Some x)
         | Inr False \<Rightarrow> (p, None)
         | Inr True \<Rightarrow>
             (case dict_get c ''css_files'' of
                PList css_files \<Rightarrow>
                  (p\<lparr>page_context :=
                       dict_set ''css_files'' (PList (remove1 (PStr theme_css_name) css_files)) c\<rparr>,
                   None)
              | v \<Rightarrow>
                  (p, Some (Exn AttributeError
                     (CHR 0x27 # type_name v @ CHR 0x27 # '' object has no attribute '' @
                      CHR 0x27 # ''remove'' @ [CHR 0x27])))))
      else (p, None))"

subsection \<open>Favicon links (lines 246 to 257)\<close>

text \<open>\<^verbatim>\<open>favicon["href"]\<close>: the value under the key, \<^verbatim>\<open>KeyError\<close> on a dictionary
  without it, \<^verbatim>\<open>TypeError\<close> on a value that is no dictionary.\<close>

definition subscript :: "pyval \<Rightarrow> string \<Rightarrow> exn + pyval" where
  "subscript v k =
     (case v of
        PDict d \<Rightarrow> (case map_of d k of None \<Rightarrow> Inl (Exn KeyError k) | Some x \<Rightarrow> Inr x)
      | PStr s \<Rightarrow> Inl (Exn TypeError ''string indices must be integers'')
      | PList xs \<Rightarrow> Inl (Exn TypeError ''list indices must be integers or slices, not str'')
      | w \<Rightarrow> Inl (Exn TypeError (CHR 0x27 # type_name w @ CHR 0x27 # '' object is not subscriptable'')))"

definition favicon_link :: "env \<Rightarrow> pyval \<Rightarrow> exn + asset" where
  "favicon_link env favicon =
     (case subscript favicon ''href'' of
        Inl x \<Rightarrow> Inl x
      | Inr href \<Rightarrow>
          (case path_suffix env href of
             Inl x \<Rightarrow> Inl x
           | Inr suffix \<Rightarrow>
               (case favicon of
                  PDict f \<Rightarrow>
                    (let icon_type = strip_with (\<lambda>c. c = CHR ''.'') suffix;
                         opts = [(''rel'', dict_get_default f ''rel'' (PStr ''icon'')),
                                 (''sizes'', dict_get_default f ''sizes'' (PStr ''16x16'')),
                                 (''type'', PStr (''image/'' @ icon_type))];
                         opts = (if dict_has f ''color''
                                 then dict_set ''color'' (dict_get f ''color'') opts else opts)
                     in Inr (CssFile href opts))
                | v \<Rightarrow> Inl (Exn TypeError ''favicon is not a dictionary''))))"

fun add_favicons :: "env \<Rightarrow> pyval list \<Rightarrow> page_state \<Rightarrow> page_state \<times> exn option" where
  "add_favicons env [] p = (p, None)"
| "add_favicons env (favicon # rest) p =
     (case favicon_link env favicon of
        Inl x \<Rightarrow> (p, Some x)
      | Inr a \<Rightarrow> add_favicons env rest (p\<lparr>page_app := add_asset a (page_app p)\<rparr>))"

definition add_favicon_links :: "env \<Rightarrow> page_state \<Rightarrow> page_state \<times> exn option" where
  "add_favicon_links env p =
     (case py_iter (dict_get_default (page_context p) ''theme_favicons'' (PList [])) of
        Inl x \<Rightarrow> (p, Some x)
      | Inr favicons \<Rightarrow> add_favicons env favicons p)"

subsection \<open>Documentation options and the theme version (lines 259 to 277)\<close>

definition quoted :: "string \<Rightarrow> string" where
  "quoted s = CHR 0x27 # s @ [CHR 0x27]"

definition switcher_script :: "string \<Rightarrow> string \<Rightarrow> string \<Rightarrow> string" where
  "switcher_script json_url version_match banner =
     [CHR 0x0A] @ ''DOCUMENTATION_OPTIONS.theme_version = '' @ quoted version @ '';'' @
     [CHR 0x0A] @ ''DOCUMENTATION_OPTIONS.theme_switcher_json_url = '' @ quoted json_url @ '';'' @
     [CHR 0x0A] @ ''DOCUMENTATION_OPTIONS.theme_switcher_version_match = '' @
                  quoted version_match @ '';'' @
     [CHR 0x0A] @ ''DOCUMENTATION_OPTIONS.show_version_warning_banner = '' @ banner @ '';'' @
     [CHR 0x0A]"

text \<open>(The script text is kept without the indentation of its lines.)\<close>

definition add_documentation_options ::
  "env \<Rightarrow> string \<Rightarrow> page_state \<Rightarrow> page_state \<times> exn option" where
  "add_documentation_options env pagename p =
     (let p1 = p\<lparr>page_app :=
                   add_asset (JsFile PNone
                     [(''body'', PStr (''DOCUMENTATION_OPTIONS.pagename = '' @ quoted pagename @ '';''))])
                     (page_app p)\<rparr>
      in case dict_get (page_context p) ''theme_switcher'' of
           PDict theme_switcher \<Rightarrow>
             (case map_of theme_switcher ''json_url'' of
                None \<Rightarrow> (p1, Some (Exn KeyError ''json_url''))
              | Some json_url \<Rightarrow>
                  (case map_of theme_switcher ''version_match'' of
                     None \<Rightarrow> (p1, Some (Exn KeyError ''version_match''))
                   | Some version_match \<Rightarrow>
                       (case map_of (page_context p) ''theme_show_version_warning_banner'' of
                          None \<Rightarrow> (p1, Some (Exn KeyError ''theme_show_version_warning_banner''))
                        | Some banner \<Rightarrow>
                            (p1\<lparr>page_app :=
                                  add_asset (JsFile PNone
                                    [(''body'', PStr (switcher_script
                                        (format_value env json_url)
                                        (format_value env version_match)
                                        (lower (format_value env banner))))])
                                    (page_app p1)\<rparr>,
                             None))))
         | v \<Rightarrow> (p1, None))"

definition set_theme_version :: "page_state \<Rightarrow> page_state \<times> exn option" where
  "set_theme_version p =
     (p\<lparr>page_context := dict_set ''theme_version'' (PStr version) (page_context p)\<rparr>, None)"

subsection \<open>The whole function\<close>

definition update_and_remove_templates ::
  "env \<Rightarrow> string \<Rightarrow> page_state \<Rightarrow> page_state \<times> exn option" where
  "update_and_remove_templates env pagename =
     run_steps
       (map (process_section env) template_sections @
        [remove_theme_css,
         add_favicon_links env,
         add_documentation_options env pagename,
         set_theme_version])"

section \<open>Notions used in the statements\<close>

text \<open>
  The blocks of \<open>update_config\<close> before and after the check of the switcher file.
\<close>

definition steps_before_switcher :: "env \<Rightarrow> (app_state \<Rightarrow> app_state \<times> exn option) list" where
  "steps_before_switcher env =
     [deprecated_logo_text,
      deprecated_footer_items,
      deprecated_favicons,
      navigation_with_keys_default,
      validate_icon_links,
      default_permalinks_icon env]"

definition steps_after_switcher :: "env \<Rightarrow> (app_state \<Rightarrow> app_state \<times> exn option) list" where
  "steps_after_switcher env =
     [add_analytics env,
      ablog_default env,
      icon_link_shortcuts,
      prepare_logo]"

text \<open>The blocks after the three deprecation shims, and the blocks before the logo.\<close>

definition steps_after_deprecations :: "env \<Rightarrow> (app_state \<Rightarrow> app_state \<times> exn option) list" where
  "steps_after_deprecations env =
     [navigation_with_keys_default,
      validate_icon_links,
      default_permalinks_icon env,
      check_switcher_file env,
      add_analytics env,
      ablog_default env,
      icon_link_shortcuts,
      prepare_logo]"

definition steps_before_logo :: "env \<Rightarrow> (app_state \<Rightarrow> app_state \<times> exn option) list" where
  "steps_before_logo env =
     [deprecated_logo_text,
      deprecated_footer_items,
      deprecated_favicons,
      navigation_with_keys_default,
      validate_icon_links,
      default_permalinks_icon env,
      check_switcher_file env,
      add_analytics env,
      ablog_default env,
      icon_link_shortcuts]"

text \<open>
  Conditions on the options under which a block raises nothing:
  \<^item> \<open>logo_text_ok\<close>: the \<^verbatim>\<open>logo_text\<close> shim can assign to the logo (the option
    \<^verbatim>\<open>logo_text\<close> is not set, or \<^verbatim>\<open>logo\<close> is absent or a dictionary);
  \<^item> \<open>icon_links_ok\<close>: \<^verbatim>\<open>icon_links\<close> is absent or a list;
  \<^item> \<open>analytics_ok\<close>: \<^verbatim>\<open>analytics\<close> is absent, falsy or a dictionary;
  \<^item> \<open>logo_ok\<close>: \<^verbatim>\<open>logo\<close> is absent, falsy or a dictionary.
\<close>

definition logo_text_ok :: "pydict \<Rightarrow> bool" where
  "logo_text_ok opts =
     (truthy (dict_get opts ''logo_text'') \<longrightarrow>
      isinstance_dict (dict_get_default opts ''logo'' (PDict [])))"

definition icon_links_ok :: "pydict \<Rightarrow> bool" where
  "icon_links_ok opts = isinstance_list (dict_get_default opts ''icon_links'' (PList []))"

definition analytics_ok :: "pydict \<Rightarrow> bool" where
  "analytics_ok opts =
     (\<not> truthy (dict_get_default opts ''analytics'' (PDict []))
      \<or> isinstance_dict (dict_get_default opts ''analytics'' (PDict [])))"

definition logo_ok :: "pydict \<Rightarrow> bool" where
  "logo_ok opts = (\<not> truthy (dict_get opts ''logo'') \<or> isinstance_dict (dict_get opts ''logo''))"

fun is_deprecation_warning :: "warning \<Rightarrow> bool" where
  "is_deprecation_warning LogoTextDeprecated = True"
| "is_deprecation_warning FooterItemsDeprecated = True"
| "is_deprecation_warning FaviconsDeprecated = True"
| "is_deprecation_warning w = False"

subsection \<open>Notions for the page hook\<close>

text \<open>The blocks of \<open>update_and_remove_templates\<close> after the removal of the stylesheet.\<close>

definition steps_after_css :: "env \<Rightarrow> string \<Rightarrow> (page_state \<Rightarrow> page_state \<times> exn option) list" where
  "steps_after_css env pagename =
     [add_favicon_links env, add_documentation_options env pagename, set_theme_version]"

text \<open>
  For a section given as the string \<open>s\<close>: the sections the loop visits before it; the
  entries of \<open>s\<close>, stripped and with the default extension; the context in which the
  templates of the section are rendered (what the earlier sections left, with the
  section holding all its entries); and whether a template passes
  \<^verbatim>\<open>_remove_empty_templates\<close> in a context.
\<close>

definition sections_before :: "string \<Rightarrow> string list" where
  "sections_before sec = takeWhile (\<lambda>x. x \<noteq> sec) template_sections"

definition section_entries :: "string \<Rightarrow> string list" where
  "section_entries s = map (\<lambda>ii. add_html (strip ii)) (split_on CHR '','' s)"

definition render_context :: "env \<Rightarrow> string \<Rightarrow> string \<Rightarrow> page_state \<Rightarrow> pydict" where
  "render_context env sec s p =
     dict_set sec (PList (map PStr (section_entries s)))
       (page_context (fst (run_steps (map (process_section env) (sections_before sec)) p)))"

definition keeps_template :: "env \<Rightarrow> pydict \<Rightarrow> string \<Rightarrow> bool" where
  "keeps_template env c tname = (remove_empty_templates env c (PStr tname) = Inr True)"

subsection \<open>A sample application and a sample world\<close>

text \<open>
  Concrete inputs at which the theorems below are instantiated: an application with the
  given theme options and nothing registered or logged yet, and a world in which one
  URL and one local file can be read. The texts \<open>''COMPLETE''\<close> and \<open>''INCOMPLETE''\<close>
  stand for two manifests; \<open>json_loads\<close> of the sample maps them to their records.
\<close>

definition app_with :: "pydict \<Rightarrow> app_state" where
  "app_with opts =
     \<lparr>theme_options = opts, html_permalinks_icon = PNone, fontawesome_included = PNone,
      extensions = [], assets = [], warnings = [], io_trace = []\<rparr>"

definition sample_env :: env where
  "sample_env =
     \<lparr>config_provided_by_user = (\<lambda>name. False),
      urlparse_scheme =
        (\<lambda>u. case u of
               PStr s \<Rightarrow> Inr (if take 8 s = ''https://'' then ''https''
                             else if take 7 s = ''http://'' then ''http'' else [])
             | v \<Rightarrow> Inl (Exn AttributeError ''decode'')),
      requests_get =
        (\<lambda>u. if u = PStr ''https://example.org/switcher.json'' then Inr ''COMPLETE''
              else if u = PStr ''https://example.org/old.json'' then Inr ''INCOMPLETE''
              else Inl (Exn ConnectionError ''Max retries exceeded'')),
      read_text =
        (\<lambda>u. if u = PStr ''_static/switcher.json'' then Inr ''COMPLETE''
              else Inl (Exn FileNotFoundError ''No such file or directory'')),
      json_loads =
        (\<lambda>c. if c = ''COMPLETE''
              then Inr (PList [PDict [(''version'', PStr ''dev''), (''url'', PStr ''/dev/'')],
                               PDict [(''version'', PStr ''1.0''), (''url'', PStr ''/1.0/'')]])
              else if c = ''INCOMPLETE''
              then Inr (PList [PDict [(''version'', PStr ''dev''), (''url'', PStr ''/dev/'')],
                               PDict [(''version'', PStr ''1.0'')]])
              else Inl (Exn JSONDecodeError ''Expecting value'')),
      format_value =
        (\<lambda>v. case v of
               PStr s \<Rightarrow> s
             | PBool b \<Rightarrow> (if b then ''True'' else ''False'')
             | w \<Rightarrow> type_name w),
      render_template =
        (\<lambda>tname c. if tname = ''empty.html'' then Inr [CHR 0x20, CHR 0x0A]
                    else Inr ''<div></div>''),
      path_suffix =
        (\<lambda>v. case v of
               PStr s \<Rightarrow> Inr (splitext_ext s)
             | w \<Rightarrow> Inl (Exn TypeError ''expected str, bytes or os.PathLike object''))\<rparr>"

definition page_with :: "pydict \<Rightarrow> page_state" where
  "page_with c = \<lparr>page_app = app_with [], page_context = c\<rparr>"

section \<open>Dictionaries and sequences of blocks\<close>

lemma map_of_dict_set: "map_of (dict_set k v d) = (map_of d)(k \<mapsto> v)"
  by (simp add: dict_set_def update_conv')

lemma dict_get_default_set:
  "dict_get_default (dict_set k v d) k' x = (if k' = k then v else dict_get_default d k' x)"
  by (simp add: dict_get_default_def map_of_dict_set)

lemma dict_get_set: "dict_get (dict_set k v d) k' = (if k' = k then v else dict_get d k')"
  by (simp add: dict_get_def dict_get_default_set)

lemma dict_has_set: "dict_has (dict_set k v d) k' = (k' = k \<or> dict_has d k')"
  by (simp add: dict_has_def map_of_dict_set)

lemma run_steps_append:
  "run_steps (fs @ gs) s =
     (case run_steps fs s of (s', None) \<Rightarrow> run_steps gs s' | (s', Some e) \<Rightarrow> (s', Some e))"
  by (induction fs arbitrary: s) (auto split: prod.splits option.splits)

lemma run_steps_preserves:
  assumes "\<And>f s. f \<in> set fs \<Longrightarrow> Q s \<Longrightarrow> Q (fst (f s))" and "Q s"
  shows "Q (fst (run_steps fs s))"
  using assms
proof (induction fs arbitrary: s)
  case Nil
  then show ?case by simp
next
  case (Cons f fs)
  have q: "Q (fst (f s))" using Cons.prems by simp
  show ?case
  proof (cases "f s")
    case (Pair s' r)
    with q have q': "Q s'" by simp
    show ?thesis
    proof (cases r)
      case None
      have "Q (fst (run_steps fs s'))"
        by (rule Cons.IH) (use Cons.prems q' in auto)
      with Pair None show ?thesis by simp
    next
      case (Some e)
      with Pair q' show ?thesis by simp
    qed
  qed
qed

text \<open>What the blocks leave unchanged.\<close>

lemma opts_check_switcher_content:
  "theme_options (fst (check_switcher_content env u c s)) = theme_options s"
  by (simp add: check_switcher_content_def warn_def split: sum.splits)

lemma opts_read_and_check_switcher:
  "theme_options (fst (read_and_check_switcher env u s)) = theme_options s"
  by (simp add: read_and_check_switcher_def Let_def warn_def opts_check_switcher_content split: sum.splits)

lemma opts_check_switcher_file:
  "theme_options (fst (check_switcher_file env s)) = theme_options s"
  by (simp add: check_switcher_file_def Let_def opts_read_and_check_switcher split: pyval.splits option.splits)

lemma opts_add_analytics:
  "theme_options (fst (add_analytics env s)) = theme_options s"
  by (simp add: add_analytics_def Let_def add_asset_def split: pyval.splits)

lemma update_config_split:
  "update_config env =
     run_steps (steps_before_switcher env @ check_switcher_file env # steps_after_switcher env)"
  by (simp add: update_config_def steps_before_switcher_def steps_after_switcher_def)

lemmas simple_step_defs =
  deprecated_logo_text_def deprecated_footer_items_def deprecated_favicons_def
  navigation_with_keys_default_def validate_icon_links_def default_permalinks_icon_def
  ablog_default_def icon_link_shortcuts_def prepare_logo_def
  warn_def set_option_def Let_def

lemma io_check_switcher_content:
  "io_trace (fst (check_switcher_content env u c s)) = io_trace s"
  by (simp add: check_switcher_content_def warn_def split: sum.splits)

lemma io_add_analytics: "io_trace (fst (add_analytics env s)) = io_trace s"
  by (simp add: add_analytics_def Let_def add_asset_def split: pyval.splits)

lemma warnings_add_analytics: "warnings (fst (add_analytics env s)) = warnings s"
  by (simp add: add_analytics_def Let_def add_asset_def split: pyval.splits)

lemma pre_map_of:
  assumes "k \<notin> {''logo'', ''footer_start'', ''navigation_with_keys''}"
  shows "map_of (theme_options (fst (run_steps (steps_before_switcher env) s))) k
           = map_of (theme_options s) k"
proof (rule run_steps_preserves [where Q = "\<lambda>t::app_state. map_of (theme_options t) k = map_of (theme_options s) k"])
  fix f and t :: app_state
  assume "f \<in> set (steps_before_switcher env)"
    and "map_of (theme_options t) k = map_of (theme_options s) k"
  then show "map_of (theme_options (fst (f t))) k = map_of (theme_options s) k"
    using assms
    by (auto simp: steps_before_switcher_def simple_step_defs map_of_dict_set split: pyval.splits)
qed simp

lemma pre_io: "io_trace (fst (run_steps (steps_before_switcher env) s)) = io_trace s"
proof (rule run_steps_preserves [where Q = "\<lambda>t::app_state. io_trace t = io_trace s"])
  fix f and t :: app_state
  assume "f \<in> set (steps_before_switcher env)" and "io_trace t = io_trace s"
  then show "io_trace (fst (f t)) = io_trace s"
    by (auto simp: steps_before_switcher_def simple_step_defs split: pyval.splits)
qed simp

lemma pre_switcher_warnings:
  "filter is_switcher_warning (warnings (fst (run_steps (steps_before_switcher env) s)))
     = filter is_switcher_warning (warnings s)"
proof (rule run_steps_preserves
    [where Q = "\<lambda>t::app_state. filter is_switcher_warning (warnings t) = filter is_switcher_warning (warnings s)"])
  fix f and t :: app_state
  assume "f \<in> set (steps_before_switcher env)"
    and "filter is_switcher_warning (warnings t) = filter is_switcher_warning (warnings s)"
  then show "filter is_switcher_warning (warnings (fst (f t))) = filter is_switcher_warning (warnings s)"
    by (auto simp: steps_before_switcher_def simple_step_defs split: pyval.splits)
qed simp

lemma post_io: "io_trace (fst (run_steps (steps_after_switcher env) s)) = io_trace s"
proof (rule run_steps_preserves [where Q = "\<lambda>t::app_state. io_trace t = io_trace s"])
  fix f and t :: app_state
  assume "f \<in> set (steps_after_switcher env)" and "io_trace t = io_trace s"
  then show "io_trace (fst (f t)) = io_trace s"
    by (auto simp: steps_after_switcher_def simple_step_defs io_add_analytics split: pyval.splits)
qed simp

lemma post_warnings: "warnings (fst (run_steps (steps_after_switcher env) s)) = warnings s"
proof (rule run_steps_preserves [where Q = "\<lambda>t::app_state. warnings t = warnings s"])
  fix f and t :: app_state
  assume "f \<in> set (steps_after_switcher env)" and "warnings t = warnings s"
  then show "warnings (fst (f t)) = warnings s"
    by (auto simp: steps_after_switcher_def simple_step_defs warnings_add_analytics split: pyval.splits)
qed simp

lemma pre_ok:
  assumes "logo_text_ok (theme_options s)" and "icon_links_ok (theme_options s)"
  shows "snd (run_steps (steps_before_switcher env) s) = None"
  using assms
  by (auto simp: steps_before_switcher_def simple_step_defs logo_text_ok_def icon_links_ok_def
      dict_get_default_set dict_get_set split: pyval.splits)



lemma contains_str_append: "contains_str n (a @ n @ b)"
proof (induction a)
  case Nil
  show ?case
  proof (cases "n @ b")
    case Nil
    then show ?thesis by simp
  next
    case (Cons x xs)
    have "take (length n) (x # xs) = n" unfolding Cons [symmetric] by simp
    then have "contains_str n (x # xs)" by (simp only: contains_str.simps simp_thms)
    then show ?thesis by (simp only: append_Nil Cons)
  qed
next
  case (Cons x a)
  then show ?case by simp
qed

lemma gate_off:
  assumes "\<not> truthy (dict_get_default (theme_options s) ''check_switcher'' (PBool True))
           \<or> \<not> isinstance_dict (dict_get (theme_options s) ''switcher'')"
  shows "check_switcher_file env s = (s, None)"
  using assms by (auto simp: check_switcher_file_def Let_def split: pyval.splits)

lemma pre_get_default:
  "k \<notin> {''logo'', ''footer_start'', ''navigation_with_keys''} \<Longrightarrow>
   dict_get_default (theme_options (fst (run_steps (steps_before_switcher env) s))) k x
     = dict_get_default (theme_options s) k x"
  by (simp add: dict_get_default_def pre_map_of)

lemma pre_get:
  "k \<notin> {''logo'', ''footer_start'', ''navigation_with_keys''} \<Longrightarrow>
   dict_get (theme_options (fst (run_steps (steps_before_switcher env) s))) k
     = dict_get (theme_options s) k"
  by (simp add: dict_get_def pre_get_default)



lemma add_analytics_ok:
  "analytics_ok (theme_options t) \<Longrightarrow> snd (add_analytics env t) = None"
  by (auto simp: add_analytics_def analytics_ok_def Let_def split: pyval.splits)

lemma post_ok:
  assumes "analytics_ok (theme_options t)" and "icon_links_ok (theme_options t)"
    and "logo_ok (theme_options t)"
  shows "snd (run_steps (steps_after_switcher env) t) = None"
proof -
  obtain t1 where a: "add_analytics env t = (t1, None)"
    using add_analytics_ok [OF assms(1), of env] by (cases "add_analytics env t") auto
  have o: "theme_options t1 = theme_options t"
    using opts_add_analytics [of env t] a by simp
  show ?thesis
    using assms(2,3) o
    by (auto simp: steps_after_switcher_def a ablog_default_def icon_link_shortcuts_def
        prepare_logo_def set_option_def Let_def icon_links_ok_def logo_ok_def
        dict_get_set dict_get_default_set split: pyval.splits)
qed

lemma add_analytics_exn:
  "snd (add_analytics env t) = Some x \<Longrightarrow> exn_class x = AttributeError"
  by (auto simp: add_analytics_def Let_def split: pyval.splits if_splits)

lemma post_exn:
  assumes "snd (run_steps (steps_after_switcher env) t) = Some x"
  shows "exn_class x \<in> {AttributeError, ValueError}"
proof (cases "add_analytics env t")
  case (Pair t1 r)
  show ?thesis
  proof (cases r)
    case (Some e)
    with Pair assms add_analytics_exn [of env t x] show ?thesis
      by (simp add: steps_after_switcher_def)
  next
    case None
    with Pair assms show ?thesis
      by (auto simp: steps_after_switcher_def ablog_default_def icon_link_shortcuts_def
          prepare_logo_def set_option_def Let_def split: pyval.splits if_splits)
  qed
qed

lemma pre_logo_ok:
  assumes "logo_ok (theme_options s)"
  shows "logo_ok (theme_options (fst (run_steps (steps_before_switcher env) s)))"
proof (rule run_steps_preserves [where Q = "\<lambda>t::app_state. logo_ok (theme_options t)"])
  fix f and t :: app_state
  assume "f \<in> set (steps_before_switcher env)" and "logo_ok (theme_options t)"
  then show "logo_ok (theme_options (fst (f t)))"
    by (auto simp: steps_before_switcher_def simple_step_defs logo_ok_def dict_get_set
        split: pyval.splits if_splits)
qed (rule assms)

text \<open>The state in which the switcher check starts, and what follows it.\<close>

lemma update_config_via_switcher:
  assumes "logo_text_ok (theme_options s)" and "icon_links_ok (theme_options s)"
  obtains t where "run_steps (steps_before_switcher env) s = (t, None)"
    and "update_config env s =
           (case check_switcher_file env t of
              (t', None) \<Rightarrow> run_steps (steps_after_switcher env) t'
            | (t', Some e) \<Rightarrow> (t', Some e))"
proof -
  obtain t r where p: "run_steps (steps_before_switcher env) s = (t, r)"
    by (cases "run_steps (steps_before_switcher env) s")
  have "r = None" using pre_ok [OF assms, of env] p by simp
  with p have p': "run_steps (steps_before_switcher env) s = (t, None)" by simp
  show thesis
    by (rule that [OF p']) (simp add: update_config_split run_steps_append p')
qed

lemma gate_on:
  assumes "dict_get (theme_options t) ''switcher'' = PDict sw"
    and "truthy (dict_get_default (theme_options t) ''check_switcher'' (PBool True))"
    and "map_of sw ''json_url'' = Some json_url"
    and "map_of sw ''version_match'' = Some vm"
  shows "check_switcher_file env t = read_and_check_switcher env json_url t"
  using assms by (simp add: check_switcher_file_def Let_def)

text \<open>The check of the switcher file, from the options the user gave.\<close>

lemma not_in_each_dicts:
  "\<forall>r\<in>set es. isinstance_dict r \<Longrightarrow>
   not_in_each k es = Inr (map (\<lambda>r. py_contains r k \<noteq> Inr True) es)"
proof (induction es)
  case Nil
  then show ?case by simp
next
  case (Cons r es)
  then obtain d where "r = PDict d" by (cases r) auto
  with Cons show ?case by simp
qed

lemma any_missing_dicts:
  "\<forall>r\<in>set es. isinstance_dict r \<Longrightarrow>
   any_missing k (PList es) = Inr (\<exists>r\<in>set es. py_contains r k \<noteq> Inr True)"
  by (auto simp: any_missing_def not_in_each_dicts)

lemma pre_icon_links_ok:
  "icon_links_ok (theme_options (fst (run_steps (steps_before_switcher env) s)))
     = icon_links_ok (theme_options s)"
  by (simp add: icon_links_ok_def pre_get_default)

lemma pre_analytics_ok:
  "analytics_ok (theme_options (fst (run_steps (steps_before_switcher env) s)))
     = analytics_ok (theme_options s)"
  by (simp add: analytics_ok_def pre_get_default)

lemma switcher_passed:
  assumes "logo_text_ok (theme_options s)" and "icon_links_ok (theme_options s)"
    and "check_switcher_file env (fst (run_steps (steps_before_switcher env) s)) = (t', None)"
  shows "update_config env s = run_steps (steps_after_switcher env) t'"
    and "warnings (fst (update_config env s)) = warnings t'"
    and "io_trace (fst (update_config env s)) = io_trace t'"
    and "snd (update_config env s) = Some x \<Longrightarrow> exn_class x \<in> {AttributeError, ValueError}"
    and "analytics_ok (theme_options s) \<Longrightarrow> logo_ok (theme_options s) \<Longrightarrow>
         snd (update_config env s) = None"
proof -
  obtain t where t: "run_steps (steps_before_switcher env) s = (t, None)"
    and u: "update_config env s =
           (case check_switcher_file env t of
              (t', None) \<Rightarrow> run_steps (steps_after_switcher env) t'
            | (t', Some e) \<Rightarrow> (t', Some e))"
    using update_config_via_switcher [OF assms(1,2)] by blast
  have t_def: "t = fst (run_steps (steps_before_switcher env) s)" using t by simp
  have c: "check_switcher_file env t = (t', None)" using assms(3) t by simp
  show eq: "update_config env s = run_steps (steps_after_switcher env) t'"
    by (simp add: u c)
  show "warnings (fst (update_config env s)) = warnings t'"
    by (simp add: eq post_warnings)
  show "io_trace (fst (update_config env s)) = io_trace t'"
    by (simp add: eq post_io)
  show "snd (update_config env s) = Some x \<Longrightarrow> exn_class x \<in> {AttributeError, ValueError}"
    unfolding eq by (rule post_exn)
  have o: "theme_options t' = theme_options t"
    using opts_check_switcher_file [of env t] c by simp
  show "snd (update_config env s) = None"
    if "analytics_ok (theme_options s)" and "logo_ok (theme_options s)"
  proof -
    have "analytics_ok (theme_options t')" "icon_links_ok (theme_options t')"
      "logo_ok (theme_options t')"
      unfolding o t_def using that assms(2)
      by (simp_all add: pre_analytics_ok pre_icon_links_ok pre_logo_ok)
    then show ?thesis unfolding eq by (rule post_ok)
  qed
qed

lemma switcher_step_reached:
  assumes "dict_get (theme_options s) ''switcher'' = PDict sw"
    and "truthy (dict_get_default (theme_options s) ''check_switcher'' (PBool True))"
    and "map_of sw ''json_url'' = Some json_url"
    and "map_of sw ''version_match'' = Some vm"
  shows "check_switcher_file env (fst (run_steps (steps_before_switcher env) s))
           = read_and_check_switcher env json_url (fst (run_steps (steps_before_switcher env) s))"
  by (rule gate_on [where sw = sw and vm = vm]) (use assms in \<open>simp_all add: pre_get pre_get_default\<close>)

text \<open>Exceptions and the options along the sequence of blocks.\<close>

lemma run_steps_Cons_None:
  "snd (run_steps (f # fs) s) = None \<Longrightarrow> snd (f s) = None"
  by (cases "f s") (auto split: option.splits)

lemma run_steps_snoc:
  "run_steps (fs @ [g]) s =
     (case run_steps fs s of (t, None) \<Rightarrow> g t | (t, Some e) \<Rightarrow> (t, Some e))"
  by (simp add: run_steps_append split: prod.splits option.splits)

lemma snd_check_switcher_content:
  "snd (check_switcher_content env u c t) = snd (check_switcher_content env u c s)"
  by (simp add: check_switcher_content_def split: sum.splits)

lemma snd_read_and_check_switcher:
  "snd (read_and_check_switcher env u t) = snd (read_and_check_switcher env u s)"
  by (simp add: read_and_check_switcher_def Let_def split: sum.splits)
     (auto simp: snd_check_switcher_content [of env u _ "t\<lparr>io_trace := _\<rparr>" "s\<lparr>io_trace := _\<rparr>"])

lemma snd_check_switcher_file:
  assumes "dict_get (theme_options t) ''switcher'' = dict_get (theme_options s) ''switcher''"
    and "dict_get_default (theme_options t) ''check_switcher'' (PBool True)
           = dict_get_default (theme_options s) ''check_switcher'' (PBool True)"
  shows "snd (check_switcher_file env t) = snd (check_switcher_file env s)"
  using assms snd_read_and_check_switcher [of env _ t s]
  by (simp add: check_switcher_file_def Let_def split: pyval.splits option.splits)

lemma pre_snd_check_switcher_file:
  "snd (check_switcher_file env (fst (run_steps (steps_before_switcher env) s)))
     = snd (check_switcher_file env s)"
  by (rule snd_check_switcher_file) (simp_all add: pre_get pre_get_default)

lemma reach_shortcuts:
  assumes "logo_text_ok (theme_options s)" and "icon_links_ok (theme_options s)"
    and "snd (check_switcher_file env s) = None" and "analytics_ok (theme_options s)"
  obtains t where "update_config env s = run_steps [icon_link_shortcuts, prepare_logo] t"
    and "theme_options t = theme_options (fst (run_steps (steps_before_switcher env) s))"
proof -
  let ?t0 = "fst (run_steps (steps_before_switcher env) s)"
  obtain t' where c: "check_switcher_file env ?t0 = (t', None)"
    using assms(3) pre_snd_check_switcher_file [of env s]
    by (cases "check_switcher_file env ?t0") auto
  have o': "theme_options t' = theme_options ?t0"
    using opts_check_switcher_file [of env ?t0] c by simp
  have eq: "update_config env s = run_steps (steps_after_switcher env) t'"
    by (rule switcher_passed(1) [OF assms(1,2) c])
  have "analytics_ok (theme_options t')"
    using assms(4) by (simp add: o' pre_analytics_ok)
  then obtain t1 where a: "add_analytics env t' = (t1, None)"
    using add_analytics_ok [of t' env] by (cases "add_analytics env t'") auto
  have o1: "theme_options t1 = theme_options t'"
    using opts_add_analytics [of env t'] a by simp
  obtain t2 where b: "ablog_default env t1 = (t2, None)" and o2: "theme_options t2 = theme_options t1"
    by (cases "''ablog'' \<in> set (extensions t1) \<and> \<not> config_provided_by_user env ''fontawesome_included''")
       (auto simp: ablog_default_def Let_def)
  show thesis
  proof (rule that [of t2])
    show "update_config env s = run_steps [icon_link_shortcuts, prepare_logo] t2"
      by (simp add: eq steps_after_switcher_def a b)
    show "theme_options t2 = theme_options ?t0"
      by (simp add: o2 o1 o')
  qed
qed

lemma insert_shortcuts_eq:
  "insert_shortcuts opts scs links
     = rev (map (shortcut_entry opts) (filter (\<lambda>sc. truthy (dict_get opts (fst sc))) scs)) @ links"
  by (induction scs arbitrary: links) auto

lemma insert_shortcuts_cong:
  assumes "\<And>k. k \<in> fst ` set scs \<Longrightarrow> dict_get opts' k = dict_get opts k"
  shows "insert_shortcuts opts' scs links = insert_shortcuts opts scs links"
  using assms
proof (induction scs arbitrary: links)
  case Nil
  then show ?case by simp
next
  case (Cons sc scs)
  have "dict_get opts' (fst sc) = dict_get opts (fst sc)" using Cons.prems by simp
  moreover have "shortcut_entry opts' sc = shortcut_entry opts sc"
    using Cons.prems [of "fst sc"] by (cases sc) (simp add: shortcut_entry_def)
  moreover have "insert_shortcuts opts' scs l = insert_shortcuts opts scs l" for l
    by (rule Cons.IH) (use Cons.prems in auto)
  ultimately show ?case by simp
qed

lemma warnings_check_switcher_content:
  "\<exists>ws. warnings (fst (check_switcher_content env u c t)) = warnings t @ ws
        \<and> list_all is_switcher_warning ws"
  by (simp add: check_switcher_content_def warn_def split: sum.splits)

lemma warnings_read_and_check_switcher:
  "\<exists>ws. warnings (fst (read_and_check_switcher env u t)) = warnings t @ ws
        \<and> list_all is_switcher_warning ws"
proof -
  have "\<exists>ws. warnings (fst (check_switcher_content env u c (t\<lparr>io_trace := i\<rparr>))) = warnings t @ ws
        \<and> list_all is_switcher_warning ws" for c i
    using warnings_check_switcher_content [of env u c "t\<lparr>io_trace := i\<rparr>"] by simp
  then show ?thesis
    by (simp add: read_and_check_switcher_def Let_def warn_def split: sum.splits)
qed

lemma warnings_check_switcher_file:
  "\<exists>ws. warnings (fst (check_switcher_file env t)) = warnings t @ ws
        \<and> list_all is_switcher_warning ws"
  using warnings_read_and_check_switcher [of env _ t]
  by (simp add: check_switcher_file_def Let_def split: pyval.splits option.splits)

lemma deprecation_warnings_check_switcher_file:
  "filter is_deprecation_warning (warnings (fst (check_switcher_file env t)))
     = filter is_deprecation_warning (warnings t)"
proof -
  obtain ws where w: "warnings (fst (check_switcher_file env t)) = warnings t @ ws"
    and a: "list_all is_switcher_warning ws"
    using warnings_check_switcher_file by blast
  have "filter is_deprecation_warning ws = []"
  proof -
    have "\<not> is_deprecation_warning x" if "x \<in> set ws" for x
    proof -
      from a that have "is_switcher_warning x" by (simp add: list_all_iff)
      then show ?thesis by (cases x) auto
    qed
    then show ?thesis by (simp add: filter_empty_conv)
  qed
  with w show ?thesis by simp
qed

lemma rest_deprecation_warnings:
  "filter is_deprecation_warning (warnings (fst (run_steps (steps_after_deprecations env) s)))
     = filter is_deprecation_warning (warnings s)"
proof (rule run_steps_preserves [where Q = "\<lambda>t::app_state.
      filter is_deprecation_warning (warnings t) = filter is_deprecation_warning (warnings s)"])
  fix f and t :: app_state
  assume "f \<in> set (steps_after_deprecations env)"
    and "filter is_deprecation_warning (warnings t) = filter is_deprecation_warning (warnings s)"
  then show "filter is_deprecation_warning (warnings (fst (f t)))
               = filter is_deprecation_warning (warnings s)"
    by (auto simp: steps_after_deprecations_def simple_step_defs
        deprecation_warnings_check_switcher_file warnings_add_analytics split: pyval.splits)
qed simp

lemma rest_footer_start:
  "dict_get (theme_options (fst (run_steps (steps_after_deprecations env) s))) ''footer_start''
     = dict_get (theme_options s) ''footer_start''"
proof (rule run_steps_preserves [where Q = "\<lambda>t::app_state.
      dict_get (theme_options t) ''footer_start'' = dict_get (theme_options s) ''footer_start''"])
  fix f and t :: app_state
  assume "f \<in> set (steps_after_deprecations env)"
    and "dict_get (theme_options t) ''footer_start'' = dict_get (theme_options s) ''footer_start''"
  then show "dict_get (theme_options (fst (f t))) ''footer_start''
               = dict_get (theme_options s) ''footer_start''"
    by (auto simp: steps_after_deprecations_def simple_step_defs dict_get_set
        opts_check_switcher_file opts_add_analytics split: pyval.splits)
qed simp

lemma rest_logo_dict:
  assumes "dict_get (theme_options s) ''logo'' = PDict d" and "d \<noteq> []"
  shows "dict_get (theme_options (fst (run_steps (steps_after_deprecations env) s))) ''logo''
           = PDict d"
proof (rule run_steps_preserves [where Q = "\<lambda>t::app_state.
      dict_get (theme_options t) ''logo'' = PDict d"])
  fix f and t :: app_state
  assume "f \<in> set (steps_after_deprecations env)"
    and "dict_get (theme_options t) ''logo'' = PDict d"
  then show "dict_get (theme_options (fst (f t))) ''logo'' = PDict d"
    using assms(2)
    by (auto simp: steps_after_deprecations_def simple_step_defs dict_get_set
        opts_check_switcher_file opts_add_analytics split: pyval.splits)
qed (rule assms(1))

lemma update_config_after_deprecations:
  assumes "logo_text_ok (theme_options s)"
  shows "update_config env s =
           run_steps (steps_after_deprecations env)
             (fst (deprecated_favicons (fst (deprecated_footer_items (fst (deprecated_logo_text s))))))"
proof -
  have 1: "deprecated_logo_text s = (fst (deprecated_logo_text s), None)"
    using assms
    by (auto simp: deprecated_logo_text_def logo_text_ok_def Let_def split: pyval.splits)
  have 2: "deprecated_footer_items t = (fst (deprecated_footer_items t), None)" for t
    by (simp add: deprecated_footer_items_def Let_def)
  have 3: "deprecated_favicons t = (fst (deprecated_favicons t), None)" for t
    by (simp add: deprecated_favicons_def)
  have "update_config env s =
      run_steps (deprecated_logo_text # deprecated_footer_items # deprecated_favicons
                 # steps_after_deprecations env) s"
    by (simp add: update_config_def steps_after_deprecations_def)
  also have "\<dots> = run_steps (deprecated_footer_items # deprecated_favicons
                 # steps_after_deprecations env) (fst (deprecated_logo_text s))"
    by (subst run_steps.simps(2), subst 1) simp
  also have "\<dots> = run_steps (deprecated_favicons # steps_after_deprecations env)
                     (fst (deprecated_footer_items (fst (deprecated_logo_text s))))"
    by (subst run_steps.simps(2), subst 2) simp
  also have "\<dots> = run_steps (steps_after_deprecations env)
       (fst (deprecated_favicons (fst (deprecated_footer_items (fst (deprecated_logo_text s))))))"
    by (subst run_steps.simps(2), subst 3) simp
  finally show ?thesis .
qed

lemma update_config_before_logo:
  "update_config env s =
     (case run_steps (steps_before_logo env) s of
        (t, None) \<Rightarrow> prepare_logo t
      | (t, Some e) \<Rightarrow> (t, Some e))"
proof -
  have "update_config env = run_steps (steps_before_logo env @ [prepare_logo])"
    by (simp add: update_config_def steps_before_logo_def)
  then show ?thesis by (simp add: run_steps_snoc)
qed

lemma logo_unchanged:
  assumes "\<not> truthy (dict_get (theme_options s) ''logo_text'')"
    and "set fs \<subseteq> set (steps_before_logo env)"
  shows "dict_get (theme_options (fst (run_steps fs s))) ''logo'' = dict_get (theme_options s) ''logo''"
proof -
  let ?Q = "\<lambda>t::app_state. dict_get (theme_options t) ''logo'' = dict_get (theme_options s) ''logo''
              \<and> dict_get (theme_options t) ''logo_text'' = dict_get (theme_options s) ''logo_text''"
  have "?Q (fst (run_steps fs s))"
  proof (rule run_steps_preserves [where Q = ?Q])
    fix f and t :: app_state
    assume "f \<in> set fs" and q: "?Q t"
    then have "f \<in> set (steps_before_logo env)" using assms(2) by blast
    then show "?Q (fst (f t))"
      using q assms(1)
      by (auto simp: steps_before_logo_def simple_step_defs dict_get_set
          opts_check_switcher_file opts_add_analytics split: pyval.splits)
  qed simp
  then show ?thesis by simp
qed

lemma prepare_logo_returns:
  assumes "snd (prepare_logo t) = None"
  shows "isinstance_dict (dict_get (theme_options (fst (prepare_logo t))) ''logo'')"
    and "\<not> truthy (dict_get (theme_options t) ''logo'') \<Longrightarrow>
         dict_get (theme_options (fst (prepare_logo t))) ''logo'' = PDict []"
  using assms
  by (auto simp: prepare_logo_def Let_def set_option_def dict_get_set split: if_splits)

lemma prepare_logo_raises:
  assumes "truthy (dict_get (theme_options t) ''logo'')"
    and "\<not> isinstance_dict (dict_get (theme_options t) ''logo'')"
  shows "prepare_logo t = (t, Some (Exn ValueError (logo_message (dict_get (theme_options t) ''logo''))))"
  using assms by (simp add: prepare_logo_def Let_def)

section \<open>The page hook, block by block\<close>

lemma ctx_process_section:
  "k \<noteq> section \<Longrightarrow>
   map_of (page_context (fst (process_section env section p))) k = map_of (page_context p) k"
  by (auto simp: process_section_def Let_def map_of_dict_set
      split: pyval.splits prod.splits option.splits sum.splits)

lemma loop_map_of:
  assumes "k \<notin> set sections"
  shows "map_of (page_context (fst (run_steps (map (process_section env) sections) p))) k
           = map_of (page_context p) k"
proof (rule run_steps_preserves [where Q = "\<lambda>t::page_state.
      map_of (page_context t) k = map_of (page_context p) k"])
  fix f and t :: page_state
  assume "f \<in> set (map (process_section env) sections)"
    and q: "map_of (page_context t) k = map_of (page_context p) k"
  then obtain sec where "sec \<in> set sections" and f: "f = process_section env sec"
    by auto
  with assms have "k \<noteq> sec" by auto
  then show "map_of (page_context (fst (f t))) k = map_of (page_context p) k"
    using q f by (simp add: ctx_process_section)
qed simp

lemma ctx_add_favicons: "page_context (fst (add_favicons env fs p)) = page_context p"
  by (induction fs arbitrary: p) (auto split: sum.splits)

lemma ctx_add_favicon_links: "page_context (fst (add_favicon_links env p)) = page_context p"
  by (simp add: add_favicon_links_def ctx_add_favicons split: sum.splits)

lemma ctx_add_documentation_options:
  "page_context (fst (add_documentation_options env pagename p)) = page_context p"
  by (simp add: add_documentation_options_def Let_def split: pyval.splits option.splits)

lemma tail_map_of:
  assumes "k \<noteq> ''theme_version''"
  shows "map_of (page_context (fst (run_steps (steps_after_css env pagename) p))) k
           = map_of (page_context p) k"
proof (rule run_steps_preserves [where Q = "\<lambda>t::page_state.
      map_of (page_context t) k = map_of (page_context p) k"])
  fix f and t :: page_state
  assume "f \<in> set (steps_after_css env pagename)"
    and "map_of (page_context t) k = map_of (page_context p) k"
  then show "map_of (page_context (fst (f t))) k = map_of (page_context p) k"
    using assms
    by (auto simp: steps_after_css_def ctx_add_favicon_links ctx_add_documentation_options
        set_theme_version_def map_of_dict_set)
qed simp

lemma update_and_remove_templates_split:
  "update_and_remove_templates env pagename p =
     (case run_steps (map (process_section env) template_sections) p of
        (p1, None) \<Rightarrow>
          (case remove_theme_css p1 of
             (p2, None) \<Rightarrow> run_steps (steps_after_css env pagename) p2
           | (p2, Some e) \<Rightarrow> (p2, Some e))
      | (p1, Some e) \<Rightarrow> (p1, Some e))"
  by (simp add: update_and_remove_templates_def run_steps_append steps_after_css_def
      split: prod.splits option.splits)

lemma remove_theme_css_list:
  assumes "dict_get (page_context p) ''css_files'' = PList css"
  shows "remove_theme_css p =
           (p\<lparr>page_context := (if PStr theme_css_name \<in> set css
                                 then dict_set ''css_files'' (PList (remove1 (PStr theme_css_name) css))
                                        (page_context p)
                                 else page_context p)\<rparr>, None)"
proof -
  have "dict_has (page_context p) ''css_files''"
    using assms by (auto simp: dict_has_def dict_get_def dict_get_default_def split: option.splits)
  then show ?thesis using assms by (auto simp: remove_theme_css_def Let_def)
qed

lemma remove_theme_css_absent:
  assumes "\<not> dict_has (page_context p) ''css_files''"
  shows "remove_theme_css p = (p, None)"
  using assms by (simp add: remove_theme_css_def Let_def)

lemma dict_set_twice: "dict_set k v (dict_set k w d) = dict_set k v d"
  by (simp add: dict_set_def update_last)

lemma add_suffixes_strings:
  "add_suffixes (map PStr ts) = (map PStr (map add_html ts), None)"
  by (induction ts) auto

lemma filter_templates_strings:
  "filter_templates env c (map PStr ts) = Inr kept \<Longrightarrow>
   kept = map PStr (filter (keeps_template env c) ts)"
proof (induction ts arbitrary: kept)
  case Nil
  then show ?case by simp
next
  case (Cons t ts)
  from Cons.prems obtain keep rest where
    k: "remove_empty_templates env c (PStr t) = Inr keep"
    and r: "filter_templates env c (map PStr ts) = Inr rest"
    and kept: "kept = (if keep then PStr t # rest else rest)"
    by (auto split: sum.splits)
  have "rest = map PStr (filter (keeps_template env c) ts)" using r by (rule Cons.IH)
  moreover have "keeps_template env c t = keep" using k by (simp add: keeps_template_def)
  ultimately show ?case using kept by simp
qed

lemma process_section_string:
  assumes "dict_get (page_context p1) sec = PStr s" and "s \<noteq> []"
    and "snd (process_section env sec p1) = None"
  shows "dict_get (page_context (fst (process_section env sec p1))) sec
           = PList (map PStr (filter
               (keeps_template env (dict_set sec (PList (map PStr (section_entries s))) (page_context p1)))
               (section_entries s)))"
proof -
  let ?c2 = "dict_set sec (PList (map PStr (section_entries s))) (page_context p1)"
  have suf: "suffix_section (split_templates s) = (PList (map PStr (section_entries s)), None)"
    using add_suffixes_strings [of "map strip (split_on CHR '','' s)"]
    by (simp add: split_templates_def section_entries_def comp_def)
  have step: "process_section env sec p1 =
      (case filter_templates env ?c2 (map PStr (section_entries s)) of
         Inl x \<Rightarrow> (p1\<lparr>page_context := ?c2\<rparr>, Some x)
       | Inr kept \<Rightarrow> (p1\<lparr>page_context := dict_set sec (PList kept) ?c2\<rparr>, None))"
    using assms(1,2)
    by (simp add: process_section_def Let_def dict_get_set suf dict_set_twice split: sum.splits)
  obtain kept where f: "filter_templates env ?c2 (map PStr (section_entries s)) = Inr kept"
    using assms(3) unfolding step by (auto split: sum.splits)
  have "kept = map PStr (filter (keeps_template env ?c2) (section_entries s))"
    using f by (rule filter_templates_strings)
  then show ?thesis by (simp add: step f dict_get_set)
qed

lemma run_steps_append_None:
  assumes "snd (run_steps (fs @ gs) s) = None"
  shows "snd (run_steps fs s) = None"
    and "run_steps (fs @ gs) s = run_steps gs (fst (run_steps fs s))"
  using assms by (auto simp: run_steps_append split: prod.splits option.splits)

lemma template_sections_split:
  assumes "sec \<in> set template_sections"
  obtains post where "template_sections = sections_before sec @ sec # post"
    and "sec \<notin> set (sections_before sec)" and "sec \<notin> set post"
proof -
  have d: "distinct template_sections" by (simp add: template_sections_def)
  let ?post = "tl (dropWhile (\<lambda>x. x \<noteq> sec) template_sections)"
  have dw: "dropWhile (\<lambda>x. x \<noteq> sec) template_sections = sec # ?post"
    using assms by (metis (mono_tags, lifting) dropWhile_eq_Nil_conv hd_dropWhile list.collapse)
  have eq: "template_sections = sections_before sec @ sec # ?post"
    unfolding sections_before_def dw [symmetric] by simp
  have a: "sec \<notin> set (sections_before sec)"
    unfolding sections_before_def by (auto dest: set_takeWhileD)
  have b: "sec \<notin> set ?post"
    using d eq by (metis distinct.simps(2) distinct_append)
  show thesis using that [OF eq a b] .
qed

section \<open>Properties of \<open>update_config\<close>\<close>

subsection \<open>C1: deprecated options\<close>

text \<open>
  C1 as stated, read for every use of \<^verbatim>\<open>logo_text\<close>, fails where the option \<^verbatim>\<open>logo\<close> holds
  a value that is no dictionary: line 33 assigns to \<^verbatim>\<open>logo["text"]\<close> and raises
  \<^verbatim>\<open>TypeError\<close> before anything is rewritten or logged. This happens at
  \<^verbatim>\<open>{"logo_text": "Docs", "logo": "logo.png"}\<close>, a logo that line 185 rejects anyway,
  and at \<^verbatim>\<open>{"logo_text": "Docs", "logo": ""}\<close>, although lines 182 to 184 take the empty
  string for a logo that is not set.
\<close>

theorem deprecated_logo_text_counterexample:
  "update_config sample_env (app_with [(''logo_text'', PStr ''Docs''), (''logo'', PStr ''logo.png'')])
     = (app_with [(''logo_text'', PStr ''Docs''), (''logo'', PStr ''logo.png'')],
        Some (Exn TypeError
          (CHR 0x27 # ''str'' @ CHR 0x27 # '' object does not support item assignment'')))
   \<and> update_config sample_env (app_with [(''logo_text'', PStr ''Docs''), (''logo'', PStr [])])
     = (app_with [(''logo_text'', PStr ''Docs''), (''logo'', PStr [])],
        Some (Exn TypeError
          (CHR 0x27 # ''str'' @ CHR 0x27 # '' object does not support item assignment'')))"
  by code_simp

text \<open>
  C1 (as amended). Let the \<^verbatim>\<open>logo\<close> option be absent or a dictionary whenever
  \<^verbatim>\<open>logo_text\<close> is set (\<open>logo_text_ok\<close>). Then, in the options \<open>update_config\<close> leaves
  behind, whether it returns or raises later on: a \<^verbatim>\<open>logo_text\<close> that is set (truthy) is the
  value of \<^verbatim>\<open>logo["text"]\<close>; a \<^verbatim>\<open>footer_items\<close> that is set is the value of
  \<^verbatim>\<open>footer_start\<close>; and the deprecation warnings logged by the call are exactly one for
  each of \<^verbatim>\<open>logo_text\<close>, \<^verbatim>\<open>footer_items\<close> and \<^verbatim>\<open>favicons\<close> that is set, in this order.
\<close>

theorem deprecated_options_rewritten:
  assumes "logo_text_ok (theme_options s)"
  shows "(truthy (dict_get (theme_options s) ''logo_text'') \<longrightarrow>
            subscript (dict_get (theme_options (fst (update_config env s))) ''logo'') ''text''
              = Inr (dict_get (theme_options s) ''logo_text''))
       \<and> (truthy (dict_get (theme_options s) ''footer_items'') \<longrightarrow>
            dict_get (theme_options (fst (update_config env s))) ''footer_start''
              = dict_get (theme_options s) ''footer_items'')
       \<and> filter is_deprecation_warning (warnings (fst (update_config env s)))
           = filter is_deprecation_warning (warnings s)
             @ (if truthy (dict_get (theme_options s) ''logo_text'') then [LogoTextDeprecated] else [])
             @ (if truthy (dict_get (theme_options s) ''footer_items'') then [FooterItemsDeprecated] else [])
             @ (if truthy (dict_get (theme_options s) ''favicons'') then [FaviconsDeprecated] else [])"
proof -
  let ?s1 = "fst (deprecated_logo_text s)"
  let ?s2 = "fst (deprecated_footer_items ?s1)"
  let ?s3 = "fst (deprecated_favicons ?s2)"
  note u = update_config_after_deprecations [OF assms, of env]
  have logo: "subscript (dict_get (theme_options (fst (update_config env s))) ''logo'') ''text''
              = Inr (dict_get (theme_options s) ''logo_text'')"
    if lt: "truthy (dict_get (theme_options s) ''logo_text'')"
  proof -
    obtain d where d: "dict_get_default (theme_options s) ''logo'' (PDict []) = PDict d"
      using assms lt by (cases "dict_get_default (theme_options s) ''logo'' (PDict [])")
        (auto simp: logo_text_ok_def)
    let ?d' = "dict_set ''text'' (dict_get (theme_options s) ''logo_text'') d"
    have ne: "?d' \<noteq> []" by (cases d) (auto simp: dict_set_def)
    have "dict_get (theme_options ?s3) ''logo'' = PDict ?d'"
      using lt d
      by (simp add: deprecated_logo_text_def deprecated_footer_items_def deprecated_favicons_def
          warn_def set_option_def Let_def dict_get_set)
    then have "dict_get (theme_options (fst (update_config env s))) ''logo'' = PDict ?d'"
      unfolding u using ne by (rule rest_logo_dict)
    then show ?thesis by (simp add: subscript_def map_of_dict_set)
  qed
  have footer: "dict_get (theme_options (fst (update_config env s))) ''footer_start''
              = dict_get (theme_options s) ''footer_items''"
    if fi: "truthy (dict_get (theme_options s) ''footer_items'')"
  proof -
    have "dict_get (theme_options ?s3) ''footer_start'' = dict_get (theme_options s) ''footer_items''"
      using fi assms
      by (auto simp: deprecated_logo_text_def deprecated_footer_items_def deprecated_favicons_def
          warn_def set_option_def Let_def dict_get_set logo_text_ok_def split: pyval.splits)
    then show ?thesis unfolding u by (simp add: rest_footer_start)
  qed
  have "filter is_deprecation_warning (warnings ?s3)
           = filter is_deprecation_warning (warnings s)
             @ (if truthy (dict_get (theme_options s) ''logo_text'') then [LogoTextDeprecated] else [])
             @ (if truthy (dict_get (theme_options s) ''footer_items'') then [FooterItemsDeprecated] else [])
             @ (if truthy (dict_get (theme_options s) ''favicons'') then [FaviconsDeprecated] else [])"
    using assms
    by (auto simp: deprecated_logo_text_def deprecated_footer_items_def deprecated_favicons_def
        warn_def set_option_def Let_def dict_get_set logo_text_ok_def split: pyval.splits)
  then have "filter is_deprecation_warning (warnings (fst (update_config env s)))
           = filter is_deprecation_warning (warnings s)
             @ (if truthy (dict_get (theme_options s) ''logo_text'') then [LogoTextDeprecated] else [])
             @ (if truthy (dict_get (theme_options s) ''footer_items'') then [FooterItemsDeprecated] else [])
             @ (if truthy (dict_get (theme_options s) ''favicons'') then [FaviconsDeprecated] else [])"
    unfolding u by (simp only: rest_deprecation_warnings)
  with logo footer show ?thesis by blast
qed

text \<open>The theorem at options that use all three deprecated names.\<close>

theorem deprecated_options_rewritten_witness:
  "subscript (dict_get (theme_options (fst (update_config sample_env
       (app_with [(''logo_text'', PStr ''Docs''), (''footer_items'', PStr ''copyright''),
                  (''favicons'', PList [PDict [(''href'', PStr ''icon.png'')]])])))) ''logo'') ''text''
     = Inr (PStr ''Docs'')
   \<and> dict_get (theme_options (fst (update_config sample_env
       (app_with [(''logo_text'', PStr ''Docs''), (''footer_items'', PStr ''copyright''),
                  (''favicons'', PList [PDict [(''href'', PStr ''icon.png'')]])])))) ''footer_start''
     = PStr ''copyright''
   \<and> filter is_deprecation_warning (warnings (fst (update_config sample_env
       (app_with [(''logo_text'', PStr ''Docs''), (''footer_items'', PStr ''copyright''),
                  (''favicons'', PList [PDict [(''href'', PStr ''icon.png'')]])]))))
     = [LogoTextDeprecated, FooterItemsDeprecated, FaviconsDeprecated]"
proof -
  let ?s = "app_with [(''logo_text'', PStr ''Docs''), (''footer_items'', PStr ''copyright''),
                      (''favicons'', PList [PDict [(''href'', PStr ''icon.png'')]])]"
  have h: "logo_text_ok (theme_options ?s)"
    by (simp add: app_with_def logo_text_ok_def dict_get_def dict_get_default_def)
  have v: "dict_get (theme_options ?s) ''logo_text'' = PStr ''Docs''"
    "dict_get (theme_options ?s) ''footer_items'' = PStr ''copyright''"
    "dict_get (theme_options ?s) ''favicons'' = PList [PDict [(''href'', PStr ''icon.png'')]]"
    "warnings ?s = []"
    by (simp_all add: app_with_def dict_get_def dict_get_default_def)
  show ?thesis
    using deprecated_options_rewritten [OF h, of sample_env] unfolding v by simp
qed

subsection \<open>C2: a switcher without a required key\<close>

text \<open>
  C2 as stated, read for every switcher dictionary, fails where \<^verbatim>\<open>check_switcher\<close> is
  falsy: the test \<^verbatim>\<open>is_dict and should_test\<close> of line 79 then skips the two
  subscripts of lines 83 and 84. At the options
  \<^verbatim>\<open>{"switcher": {}, "check_switcher": False}\<close> the switcher is a dictionary with
  neither key and \<open>update_config\<close> returns normally.
\<close>

theorem switcher_missing_key_unchecked_counterexample:
  "dict_get (theme_options (app_with [(''switcher'', PDict []), (''check_switcher'', PBool False)]))
      ''switcher'' = PDict []
   \<and> snd (update_config sample_env
             (app_with [(''switcher'', PDict []), (''check_switcher'', PBool False)])) = None"
  by code_simp

text \<open>
  C2 (as amended). If the \<^verbatim>\<open>switcher\<close> option is a dictionary that lacks
  \<^verbatim>\<open>json_url\<close> or \<^verbatim>\<open>version_match\<close>, the option \<^verbatim>\<open>check_switcher\<close> is
  truthy or absent, and the blocks before the check raise nothing (\<open>logo_text_ok\<close>,
  \<open>icon_links_ok\<close>), then \<open>update_config\<close> raises a \<^verbatim>\<open>KeyError\<close> that names the
  absent key: \<^verbatim>\<open>json_url\<close> when that one is absent, \<^verbatim>\<open>version_match\<close> otherwise.
\<close>

theorem switcher_missing_key_raises:
  assumes "logo_text_ok (theme_options s)" and "icon_links_ok (theme_options s)"
    and "dict_get (theme_options s) ''switcher'' = PDict sw"
    and "truthy (dict_get_default (theme_options s) ''check_switcher'' (PBool True))"
    and "map_of sw ''json_url'' = None \<or> map_of sw ''version_match'' = None"
  shows "snd (update_config env s) =
           Some (Exn KeyError (if map_of sw ''json_url'' = None then ''json_url''
                               else ''version_match''))"
proof -
  obtain t where t: "run_steps (steps_before_switcher env) s = (t, None)"
    and u: "update_config env s =
           (case check_switcher_file env t of
              (t', None) \<Rightarrow> run_steps (steps_after_switcher env) t'
            | (t', Some e) \<Rightarrow> (t', Some e))"
    using update_config_via_switcher [OF assms(1,2)] by blast
  have t': "t = fst (run_steps (steps_before_switcher env) s)" using t by simp
  have "dict_get (theme_options t) ''switcher'' = PDict sw"
    and "truthy (dict_get_default (theme_options t) ''check_switcher'' (PBool True))"
    unfolding t' using assms(3,4) by (simp_all add: pre_get pre_get_default)
  then have "check_switcher_file env t =
      (t, Some (Exn KeyError (if map_of sw ''json_url'' = None then ''json_url''
                               else ''version_match'')))"
    using assms(5) by (auto simp: check_switcher_file_def Let_def split: option.splits)
  then show ?thesis by (simp add: u)
qed

text \<open>
  The theorem at \<^verbatim>\<open>{"switcher": {"json_url": "https://example.org/switcher.json"}}\<close>:
  the key \<^verbatim>\<open>version_match\<close> is absent and named by the error.
\<close>

theorem switcher_missing_key_raises_witness:
  "snd (update_config sample_env
          (app_with [(''switcher'', PDict [(''json_url'', PStr ''https://example.org/switcher.json'')])]))
     = Some (Exn KeyError ''version_match'')"
proof -
  let ?sw = "[(''json_url'', PStr ''https://example.org/switcher.json'')]"
  let ?s = "app_with [(''switcher'', PDict ?sw)]"
  have h1: "logo_text_ok (theme_options ?s)"
    by (simp add: app_with_def logo_text_ok_def dict_get_def dict_get_default_def)
  have h2: "icon_links_ok (theme_options ?s)"
    by (simp add: app_with_def icon_links_ok_def dict_get_default_def)
  have h3: "dict_get (theme_options ?s) ''switcher'' = PDict ?sw"
    by (simp add: app_with_def dict_get_def dict_get_default_def)
  have h4: "truthy (dict_get_default (theme_options ?s) ''check_switcher'' (PBool True))"
    by (simp add: app_with_def dict_get_default_def)
  have h5: "map_of ?sw ''json_url'' = None \<or> map_of ?sw ''version_match'' = None"
    by simp
  show ?thesis
    using switcher_missing_key_raises [OF h1 h2 h3 h4 h5, of sample_env] by simp
qed

subsection \<open>C3: records of the manifest without a key\<close>

text \<open>
  C3. Let the switcher check be reached and switched on (no earlier block raises; the
  switcher is a dictionary with both keys; \<^verbatim>\<open>check_switcher\<close> is truthy or absent), let
  the manifest be retrieved, from the network or from the source directory, and let it
  parse to a JSON array of records (objects). If every record has the keys \<^verbatim>\<open>url\<close> and
  \<^verbatim>\<open>version\<close>, the check logs nothing about the switcher; if some record lacks one of
  them, it logs exactly one warning, the one about a malformed file. In both cases the
  check raises nothing and the function goes on: an exception that still leaves
  \<open>update_config\<close> is one of the later blocks (\<^verbatim>\<open>AttributeError\<close> of the analytics,
  \<^verbatim>\<open>ValueError\<close> of the logo), and there is none when these two options are well-formed.
\<close>

theorem switcher_manifest_validated:
  assumes "logo_text_ok (theme_options s)" and "icon_links_ok (theme_options s)"
    and "dict_get (theme_options s) ''switcher'' = PDict sw"
    and "truthy (dict_get_default (theme_options s) ''check_switcher'' (PBool True))"
    and "map_of sw ''json_url'' = Some json_url"
    and "map_of sw ''version_match'' = Some vm"
    and "urlparse_scheme env json_url = Inr scheme"
    and "(if scheme \<in> set [''http'', ''https''] then requests_get env json_url
          else read_text env json_url) = Inr content"
    and "json_loads env content = Inr (PList records)"
    and "\<forall>r\<in>set records. isinstance_dict r"
  shows "filter is_switcher_warning (warnings (fst (update_config env s)))
           = filter is_switcher_warning (warnings s) @
             (if \<forall>r\<in>set records. py_contains r ''url'' = Inr True
                                   \<and> py_contains r ''version'' = Inr True
              then [] else [SwitcherMalformed json_url])
       \<and> (\<forall>x. snd (update_config env s) = Some x \<longrightarrow> exn_class x \<in> {AttributeError, ValueError})
       \<and> (analytics_ok (theme_options s) \<and> logo_ok (theme_options s)
            \<longrightarrow> snd (update_config env s) = None)"
proof -
  let ?t = "fst (run_steps (steps_before_switcher env) s)"
  let ?complete = "\<forall>r\<in>set records. py_contains r ''url'' = Inr True
                                   \<and> py_contains r ''version'' = Inr True"
  let ?t1 = "?t\<lparr>io_trace := io_trace ?t @ [if scheme \<in> set [''http'', ''https'']
                                                then HttpGet json_url else FileRead json_url]\<rparr>"
  let ?t' = "if ?complete then ?t1 else warn (SwitcherMalformed json_url) ?t1"
  have content: "check_switcher_content env json_url content ?t1 = (?t', None)"
    using assms(9) any_missing_dicts [OF assms(10)]
    by (auto simp: check_switcher_content_def)
  have "read_and_check_switcher env json_url ?t = (?t', None)"
    using assms(7,8) content
    by (auto simp: read_and_check_switcher_def Let_def split: if_splits)
  then have c: "check_switcher_file env ?t = (?t', None)"
    using switcher_step_reached [OF assms(3,4,5,6), of env] by simp
  note p = switcher_passed [OF assms(1,2) c]
  have "filter is_switcher_warning (warnings ?t')
          = filter is_switcher_warning (warnings s) @
             (if ?complete then [] else [SwitcherMalformed json_url])"
    by (simp add: warn_def pre_switcher_warnings)
  then show ?thesis using p(2,4,5) by auto
qed

text \<open>
  The theorem in the sample world, at a manifest whose second record has no \<^verbatim>\<open>url\<close>
  (one warning) and at a manifest read from the source directory whose records are
  complete (no warning).
\<close>

theorem switcher_manifest_validated_witness:
  "filter is_switcher_warning (warnings (fst (update_config sample_env
      (app_with [(''switcher'', PDict [(''json_url'', PStr ''https://example.org/old.json''),
                                      (''version_match'', PStr ''dev'')])]))))
     = [SwitcherMalformed (PStr ''https://example.org/old.json'')]
   \<and> snd (update_config sample_env
      (app_with [(''switcher'', PDict [(''json_url'', PStr ''https://example.org/old.json''),
                                      (''version_match'', PStr ''dev'')])])) = None
   \<and> filter is_switcher_warning (warnings (fst (update_config sample_env
      (app_with [(''switcher'', PDict [(''json_url'', PStr ''_static/switcher.json''),
                                      (''version_match'', PStr ''dev'')])]))))
     = []"
proof -
  let ?old = "[(''json_url'', PStr ''https://example.org/old.json''), (''version_match'', PStr ''dev'')]"
  let ?loc = "[(''json_url'', PStr ''_static/switcher.json''), (''version_match'', PStr ''dev'')]"
  let ?s = "app_with [(''switcher'', PDict ?old)]"
  let ?s' = "app_with [(''switcher'', PDict ?loc)]"
  let ?incomplete = "[PDict [(''version'', PStr ''dev''), (''url'', PStr ''/dev/'')],
                      PDict [(''version'', PStr ''1.0'')]]"
  let ?complete = "[PDict [(''version'', PStr ''dev''), (''url'', PStr ''/dev/'')],
                    PDict [(''version'', PStr ''1.0''), (''url'', PStr ''/1.0/'')]]"
  have h1: "logo_text_ok (theme_options ?s)" "logo_text_ok (theme_options ?s')"
    by (simp_all add: app_with_def logo_text_ok_def dict_get_def dict_get_default_def)
  have h2: "icon_links_ok (theme_options ?s)" "icon_links_ok (theme_options ?s')"
    by (simp_all add: app_with_def icon_links_ok_def dict_get_default_def)
  have h3: "dict_get (theme_options ?s) ''switcher'' = PDict ?old"
    "dict_get (theme_options ?s') ''switcher'' = PDict ?loc"
    by (simp_all add: app_with_def dict_get_def dict_get_default_def)
  have h4: "truthy (dict_get_default (theme_options ?s) ''check_switcher'' (PBool True))"
    "truthy (dict_get_default (theme_options ?s') ''check_switcher'' (PBool True))"
    by (simp_all add: app_with_def dict_get_default_def)
  have h5: "map_of ?old ''json_url'' = Some (PStr ''https://example.org/old.json'')"
    "map_of ?loc ''json_url'' = Some (PStr ''_static/switcher.json'')"
    by simp_all
  have h6: "map_of ?old ''version_match'' = Some (PStr ''dev'')"
    "map_of ?loc ''version_match'' = Some (PStr ''dev'')"
    by simp_all
  have h7: "urlparse_scheme sample_env (PStr ''https://example.org/old.json'') = Inr ''https''"
    "urlparse_scheme sample_env (PStr ''_static/switcher.json'') = Inr []"
    by (simp_all add: sample_env_def)
  have h8: "(if ''https'' \<in> set [''http'', ''https'']
             then requests_get sample_env (PStr ''https://example.org/old.json'')
             else read_text sample_env (PStr ''https://example.org/old.json'')) = Inr ''INCOMPLETE''"
    "(if [] \<in> set [''http'', ''https'']
             then requests_get sample_env (PStr ''_static/switcher.json'')
             else read_text sample_env (PStr ''_static/switcher.json'')) = Inr ''COMPLETE''"
    by (simp_all add: sample_env_def)
  have h9: "json_loads sample_env ''INCOMPLETE'' = Inr (PList ?incomplete)"
    "json_loads sample_env ''COMPLETE'' = Inr (PList ?complete)"
    by (simp_all add: sample_env_def)
  have h10: "\<forall>r\<in>set ?incomplete. isinstance_dict r" "\<forall>r\<in>set ?complete. isinstance_dict r"
    by simp_all
  have ok: "analytics_ok (theme_options ?s)" "logo_ok (theme_options ?s)"
    by (simp_all add: app_with_def analytics_ok_def logo_ok_def dict_get_def dict_get_default_def)
  note a = switcher_manifest_validated
    [OF h1(1) h2(1) h3(1) h4(1) h5(1) h6(1) h7(1) h8(1) h9(1) h10(1)]
  note b = switcher_manifest_validated
    [OF h1(2) h2(2) h3(2) h4(2) h5(2) h6(2) h7(2) h8(2) h9(2) h10(2)]
  have "snd (update_config sample_env ?s) = None" using a ok by blast
  moreover have "filter is_switcher_warning (warnings (fst (update_config sample_env ?s)))
      = [SwitcherMalformed (PStr ''https://example.org/old.json'')]"
    using a by (simp add: app_with_def dict_has_def)
  moreover have "filter is_switcher_warning (warnings (fst (update_config sample_env ?s'))) = []"
    using b by (simp add: app_with_def dict_has_def)
  ultimately show ?thesis by simp
qed

subsection \<open>C4: a switcher file that cannot be read\<close>

text \<open>
  C4. Let the switcher check be reached and switched on, as in C3. If the URL has the
  scheme \<^verbatim>\<open>http\<close> or \<^verbatim>\<open>https\<close> and the request raises a \<^verbatim>\<open>ConnectionError\<close>, an
  \<^verbatim>\<open>HTTPError\<close> or a \<^verbatim>\<open>RetryError\<close>, or it has another scheme and reading the local
  file raises \<^verbatim>\<open>FileNotFoundError\<close>, then the exception is caught: exactly one warning
  about the switcher is logged, the one that the file cannot be read, and the function
  goes on. An exception that still leaves \<open>update_config\<close> is one of the later blocks
  (\<^verbatim>\<open>AttributeError\<close> of the analytics, \<^verbatim>\<open>ValueError\<close> of the logo), never the
  reading error; with these two options well-formed the function returns normally.
\<close>

theorem switcher_unreachable_warns_once:
  assumes "logo_text_ok (theme_options s)" and "icon_links_ok (theme_options s)"
    and "dict_get (theme_options s) ''switcher'' = PDict sw"
    and "truthy (dict_get_default (theme_options s) ''check_switcher'' (PBool True))"
    and "map_of sw ''json_url'' = Some json_url"
    and "map_of sw ''version_match'' = Some vm"
    and "urlparse_scheme env json_url = Inr scheme"
    and "(if scheme \<in> set [''http'', ''https''] then requests_get env json_url
          else read_text env json_url) = Inl e"
    and "exn_class e \<in> (if scheme \<in> set [''http'', ''https'']
                         then {ConnectionError, HTTPError, RetryError}
                         else {FileNotFoundError})"
  shows "filter is_switcher_warning (warnings (fst (update_config env s)))
           = filter is_switcher_warning (warnings s) @ [SwitcherUnreadable json_url e]
       \<and> (\<forall>x. snd (update_config env s) = Some x \<longrightarrow> exn_class x \<in> {AttributeError, ValueError})
       \<and> (analytics_ok (theme_options s) \<and> logo_ok (theme_options s)
            \<longrightarrow> snd (update_config env s) = None)"
proof -
  let ?t = "fst (run_steps (steps_before_switcher env) s)"
  let ?t' = "warn (SwitcherUnreadable json_url e)
               (?t\<lparr>io_trace := io_trace ?t @ [if scheme \<in> set [''http'', ''https'']
                                                then HttpGet json_url else FileRead json_url]\<rparr>)"
  have "read_and_check_switcher env json_url ?t = (?t', None)"
    using assms(7,8,9) by (auto simp: read_and_check_switcher_def Let_def split: if_splits)
  then have c: "check_switcher_file env ?t = (?t', None)"
    using switcher_step_reached [OF assms(3,4,5,6), of env] by simp
  note p = switcher_passed [OF assms(1,2) c]
  have "filter is_switcher_warning (warnings ?t')
          = filter is_switcher_warning (warnings s) @ [SwitcherUnreadable json_url e]"
    by (simp add: warn_def pre_switcher_warnings)
  then show ?thesis using p(2,4,5) by auto
qed

text \<open>The theorem in the sample world, at a URL that does not answer.\<close>

theorem switcher_unreachable_warns_once_witness:
  "filter is_switcher_warning (warnings (fst (update_config sample_env
      (app_with [(''switcher'', PDict [(''json_url'', PStr ''https://example.org/none.json''),
                                      (''version_match'', PStr ''dev'')])]))))
     = [SwitcherUnreadable (PStr ''https://example.org/none.json'')
          (Exn ConnectionError ''Max retries exceeded'')]
   \<and> snd (update_config sample_env
      (app_with [(''switcher'', PDict [(''json_url'', PStr ''https://example.org/none.json''),
                                      (''version_match'', PStr ''dev'')])])) = None"
proof -
  let ?sw = "[(''json_url'', PStr ''https://example.org/none.json''), (''version_match'', PStr ''dev'')]"
  let ?s = "app_with [(''switcher'', PDict ?sw)]"
  let ?e = "Exn ConnectionError ''Max retries exceeded''"
  have h1: "logo_text_ok (theme_options ?s)"
    by (simp add: app_with_def logo_text_ok_def dict_get_def dict_get_default_def)
  have h2: "icon_links_ok (theme_options ?s)"
    by (simp add: app_with_def icon_links_ok_def dict_get_default_def)
  have h3: "dict_get (theme_options ?s) ''switcher'' = PDict ?sw"
    by (simp add: app_with_def dict_get_def dict_get_default_def)
  have h4: "truthy (dict_get_default (theme_options ?s) ''check_switcher'' (PBool True))"
    by (simp add: app_with_def dict_get_default_def)
  have h5: "map_of ?sw ''json_url'' = Some (PStr ''https://example.org/none.json'')" by simp
  have h6: "map_of ?sw ''version_match'' = Some (PStr ''dev'')" by simp
  have h7: "urlparse_scheme sample_env (PStr ''https://example.org/none.json'') = Inr ''https''"
    by (simp add: sample_env_def)
  have h8: "(if ''https'' \<in> set [''http'', ''https'']
             then requests_get sample_env (PStr ''https://example.org/none.json'')
             else read_text sample_env (PStr ''https://example.org/none.json'')) = Inl ?e"
    by (simp add: sample_env_def)
  have h9: "exn_class ?e \<in> (if ''https'' \<in> set [''http'', ''https'']
                              then {ConnectionError, HTTPError, RetryError}
                              else {FileNotFoundError})"
    by simp
  have ok: "analytics_ok (theme_options ?s)" "logo_ok (theme_options ?s)"
    by (simp_all add: app_with_def analytics_ok_def logo_ok_def dict_get_def dict_get_default_def)
  note a = switcher_unreachable_warns_once [OF h1 h2 h3 h4 h5 h6 h7 h8 h9]
  have "snd (update_config sample_env ?s) = None" using a ok by blast
  moreover have "filter is_switcher_warning (warnings (fst (update_config sample_env ?s)))
      = [SwitcherUnreadable (PStr ''https://example.org/none.json'') ?e]"
    using a by (simp add: app_with_def)
  ultimately show ?thesis by simp
qed

subsection \<open>C5: \<^verbatim>\<open>icon_links\<close> that is no list\<close>

text \<open>
  C5. If the option \<^verbatim>\<open>icon_links\<close> is present with a value that is not a list, then
  \<open>update_config\<close> does not return normally. The exception is the \<^verbatim>\<open>ExtensionError\<close>
  of line 67, whose message is the text of line 68 with the class of the value, whenever
  the validation is reached, that is, unless the only statement before it that can
  raise, the \<^verbatim>\<open>logo_text\<close> shim, has failed (\<open>logo_text_ok\<close>); the name of the value's
  type occurs in that message.
\<close>

theorem icon_links_not_list_raises:
  assumes "map_of (theme_options s) ''icon_links'' = Some v"
      and "\<not> isinstance_list v"
  shows "snd (update_config env s) \<noteq> None
       \<and> (logo_text_ok (theme_options s) \<longrightarrow>
            snd (update_config env s) = Some (Exn ExtensionError (icon_links_message v)))
       \<and> contains_str (type_name v) (icon_links_message v)"
proof -
  have named: "contains_str (type_name v) (icon_links_message v)"
    using contains_str_append [of "type_name v"
        "''`icon_links` must be a list of dictionaries, you provided type <class '' @ [CHR 0x27]"
        "[CHR 0x27] @ ''>.''"]
    by (simp add: icon_links_message_def class_repr_def)
  have reached: "snd (update_config env s) = Some (Exn ExtensionError (icon_links_message v))"
    if "logo_text_ok (theme_options s)"
    using that assms
    by (auto simp: update_config_def simple_step_defs logo_text_ok_def
        dict_get_default_def dict_get_def map_of_dict_set split: pyval.splits)
  have "snd (update_config env s) \<noteq> None" if "\<not> logo_text_ok (theme_options s)"
  proof -
    have "snd (deprecated_logo_text s) \<noteq> None"
      using that
      by (auto simp: deprecated_logo_text_def logo_text_ok_def Let_def split: pyval.splits)
    then show ?thesis
      unfolding update_config_def by (metis run_steps_Cons_None)
  qed
  with reached named show ?thesis by auto
qed

text \<open>The theorem at \<^verbatim>\<open>{"icon_links": "https://github.com/pydata"}\<close>, a string.\<close>

theorem icon_links_not_list_raises_witness:
  "snd (update_config sample_env (app_with [(''icon_links'', PStr ''https://github.com/pydata'')]))
     = Some (Exn ExtensionError
         ''`icon_links` must be a list of dictionaries, you provided type <class 'str'>.'')"
proof -
  let ?s = "app_with [(''icon_links'', PStr ''https://github.com/pydata'')]"
  have h1: "logo_text_ok (theme_options ?s)"
    by (simp add: app_with_def logo_text_ok_def dict_get_def dict_get_default_def)
  have h2: "map_of (theme_options ?s) ''icon_links'' = Some (PStr ''https://github.com/pydata'')"
    by (simp add: app_with_def)
  have h3: "\<not> isinstance_list (PStr ''https://github.com/pydata'')" by simp
  show ?thesis
    using icon_links_not_list_raises [OF h2 h3, of sample_env] h1
    by (simp add: icon_links_message_def class_repr_def)
qed

subsection \<open>C8: icon link shortcuts\<close>

text \<open>
  C8 as stated, read for every shortcut option that is present, fails where the option is
  present with a falsy value: line 167 tests \<^verbatim>\<open>theme_options.get(url)\<close> for truth. At
  \<^verbatim>\<open>{"github_url": "", "icon_links": [{"name": "mine"}]}\<close> the shortcut is present, the
  function returns normally, and no entry is put in front of the user's.
\<close>

theorem shortcut_present_but_empty_counterexample:
  "dict_has (theme_options (app_with [(''github_url'', PStr []),
                                      (''icon_links'', PList [PDict [(''name'', PStr ''mine'')]])]))
     ''github_url''
   \<and> snd (update_config sample_env
            (app_with [(''github_url'', PStr []),
                       (''icon_links'', PList [PDict [(''name'', PStr ''mine'')]])])) = None
   \<and> dict_get (theme_options (fst (update_config sample_env
            (app_with [(''github_url'', PStr []),
                       (''icon_links'', PList [PDict [(''name'', PStr ''mine'')]])])))) ''icon_links''
       = PList [PDict [(''name'', PStr ''mine'')]]"
  by code_simp

text \<open>
  C8 (as amended). Let the blocks before the shortcut handling raise nothing (the
  \<^verbatim>\<open>logo_text\<close> shim can assign, the switcher check raises nothing, \<^verbatim>\<open>analytics\<close> is
  falsy or a dictionary) and let \<^verbatim>\<open>icon_links\<close> be absent or the list \<open>user_links\<close>.
  Then \<open>update_config\<close> leaves in \<^verbatim>\<open>icon_links\<close> the entries generated for the shortcut
  options that are set to a truthy value, in the reverse of the order twitter, bitbucket,
  gitlab, github, followed by the user's entries unchanged and in order: every generated
  entry precedes every entry of the user, and a later shortcut comes earlier.
\<close>

theorem shortcuts_precede_icon_links:
  assumes "logo_text_ok (theme_options s)"
    and "dict_get_default (theme_options s) ''icon_links'' (PList []) = PList user_links"
    and "snd (check_switcher_file env s) = None"
    and "analytics_ok (theme_options s)"
  shows "dict_get (theme_options (fst (update_config env s))) ''icon_links''
           = PList (rev (map (shortcut_entry (theme_options s))
                          (filter (\<lambda>sc. truthy (dict_get (theme_options s) (fst sc))) shortcuts))
                    @ user_links)"
proof -
  have il: "icon_links_ok (theme_options s)" using assms(2) by (simp add: icon_links_ok_def)
  obtain t where u: "update_config env s = run_steps [icon_link_shortcuts, prepare_logo] t"
    and o: "theme_options t = theme_options (fst (run_steps (steps_before_switcher env) s))"
    using reach_shortcuts [OF assms(1) il assms(3,4)] by blast
  have links: "dict_get_default (theme_options t) ''icon_links'' (PList []) = PList user_links"
    using assms(2) by (simp add: o pre_get_default)
  have "insert_shortcuts (theme_options t) shortcuts user_links
          = insert_shortcuts (theme_options s) shortcuts user_links"
    by (rule insert_shortcuts_cong) (auto simp: o shortcuts_def pre_get)
  then have sc: "icon_link_shortcuts t =
      (set_option ''icon_links''
         (PList (insert_shortcuts (theme_options s) shortcuts user_links)) t, None)"
    using links by (simp add: icon_link_shortcuts_def Let_def)
  have "dict_get (theme_options (fst (update_config env s))) ''icon_links''
          = PList (insert_shortcuts (theme_options s) shortcuts user_links)"
    by (simp add: u sc prepare_logo_def Let_def set_option_def dict_get_set)
  then show ?thesis by (simp add: insert_shortcuts_eq)
qed

text \<open>The theorem at options with the GitHub and the Twitter shortcut and one link of the user.\<close>

theorem shortcuts_precede_icon_links_witness:
  "dict_get (theme_options (fst (update_config sample_env
       (app_with [(''github_url'', PStr ''https://github.com/pydata''),
                  (''twitter_url'', PStr ''https://twitter.com/pydata''),
                  (''icon_links'', PList [PDict [(''name'', PStr ''mine'')]])])))) ''icon_links''
     = PList [PDict [(''url'', PStr ''https://github.com/pydata''),
                     (''icon'', PStr ''fa-brands fa-square-github''),
                     (''name'', PStr ''GitHub''), (''type'', PStr ''fontawesome'')],
              PDict [(''url'', PStr ''https://twitter.com/pydata''),
                     (''icon'', PStr ''fa-brands fa-square-twitter''),
                     (''name'', PStr ''Twitter''), (''type'', PStr ''fontawesome'')],
              PDict [(''name'', PStr ''mine'')]]"
proof -
  let ?s = "app_with [(''github_url'', PStr ''https://github.com/pydata''),
                      (''twitter_url'', PStr ''https://twitter.com/pydata''),
                      (''icon_links'', PList [PDict [(''name'', PStr ''mine'')]])]"
  have h1: "logo_text_ok (theme_options ?s)"
    by (simp add: app_with_def logo_text_ok_def dict_get_def dict_get_default_def)
  have h2: "dict_get_default (theme_options ?s) ''icon_links'' (PList [])
              = PList [PDict [(''name'', PStr ''mine'')]]"
    by (simp add: app_with_def dict_get_default_def)
  have h3: "snd (check_switcher_file sample_env ?s) = None"
    by (simp add: check_switcher_file_def app_with_def dict_get_def dict_get_default_def)
  have h4: "analytics_ok (theme_options ?s)"
    by (simp add: app_with_def analytics_ok_def dict_get_default_def)
  show ?thesis
    using shortcuts_precede_icon_links [OF h1 h2 h3 h4]
    by (simp add: app_with_def shortcuts_def shortcut_entry_def dict_get_def dict_get_default_def)
qed

subsection \<open>C9: the logo dictionary\<close>

text \<open>
  C9 as stated fails in two places. A logo that is not set is replaced by the dictionary
  \<^verbatim>\<open>{"text": logo_text}\<close>, not by an empty one, when the deprecated \<^verbatim>\<open>logo_text\<close> is
  used (lines 31 to 34); and a truthy logo that is no dictionary does not reach the
  \<^verbatim>\<open>ValueError\<close> of line 186 when a block before it raises, as the validation of
  \<^verbatim>\<open>icon_links\<close> does at \<^verbatim>\<open>{"logo": "logo.png", "icon_links": "x"}\<close>.
\<close>

theorem logo_not_empty_counterexample:
  "snd (update_config sample_env (app_with [(''logo_text'', PStr ''Docs'')])) = None
   \<and> dict_get (theme_options (fst (update_config sample_env
              (app_with [(''logo_text'', PStr ''Docs'')])))) ''logo''
       = PDict [(''text'', PStr ''Docs'')]
   \<and> snd (update_config sample_env
            (app_with [(''logo'', PStr ''logo.png''), (''icon_links'', PStr ''x'')]))
       = Some (Exn ExtensionError (icon_links_message (PStr ''x'')))"
  by code_simp

text \<open>
  C9 (as amended). Whenever \<open>update_config\<close> returns normally, the option \<^verbatim>\<open>logo\<close> is
  a dictionary; it is the empty dictionary when the logo was missing or falsy
  (\<^verbatim>\<open>None\<close>, the empty string) and \<^verbatim>\<open>logo_text\<close> is not set. A truthy logo that is no
  dictionary never lets \<open>update_config\<close> return normally; the exception is the
  \<^verbatim>\<open>ValueError\<close> of line 186, whose message names the type, whenever no block before
  it raises (\<^verbatim>\<open>logo_text\<close> not set, \<^verbatim>\<open>icon_links\<close> absent or a list, the switcher check
  raising nothing, \<^verbatim>\<open>analytics\<close> falsy or a dictionary).
\<close>

theorem logo_is_dict_after_update:
  "(snd (update_config env s) = None \<longrightarrow>
      isinstance_dict (dict_get (theme_options (fst (update_config env s))) ''logo''))
 \<and> (snd (update_config env s) = None
      \<and> \<not> truthy (dict_get (theme_options s) ''logo_text'')
      \<and> \<not> truthy (dict_get (theme_options s) ''logo'') \<longrightarrow>
      dict_get (theme_options (fst (update_config env s))) ''logo'' = PDict [])
 \<and> (truthy (dict_get (theme_options s) ''logo'')
      \<and> \<not> isinstance_dict (dict_get (theme_options s) ''logo'') \<longrightarrow>
      snd (update_config env s) \<noteq> None)
 \<and> (truthy (dict_get (theme_options s) ''logo'')
      \<and> \<not> isinstance_dict (dict_get (theme_options s) ''logo'')
      \<and> \<not> truthy (dict_get (theme_options s) ''logo_text'')
      \<and> icon_links_ok (theme_options s)
      \<and> snd (check_switcher_file env s) = None
      \<and> analytics_ok (theme_options s) \<longrightarrow>
      snd (update_config env s)
        = Some (Exn ValueError (logo_message (dict_get (theme_options s) ''logo'')))
      \<and> contains_str (type_name (dict_get (theme_options s) ''logo''))
           (logo_message (dict_get (theme_options s) ''logo'')))"
proof -
  obtain t r where p: "run_steps (steps_before_logo env) s = (t, r)"
    by (cases "run_steps (steps_before_logo env) s")
  have t: "t = fst (run_steps (steps_before_logo env) s)" using p by simp
  note u = update_config_before_logo [of env s]
  have returned: "r = None \<and> update_config env s = prepare_logo t"
    if "snd (update_config env s) = None"
    using that p u by (cases r) auto
  have unchanged: "dict_get (theme_options t) ''logo'' = dict_get (theme_options s) ''logo''"
    if "\<not> truthy (dict_get (theme_options s) ''logo_text'')"
    unfolding t using that by (rule logo_unchanged [where env = env]) simp
  have 1: "isinstance_dict (dict_get (theme_options (fst (update_config env s))) ''logo'')"
    if "snd (update_config env s) = None"
    using returned [OF that] that prepare_logo_returns(1) [of t] by simp
  have 2: "dict_get (theme_options (fst (update_config env s))) ''logo'' = PDict []"
    if "snd (update_config env s) = None"
      and "\<not> truthy (dict_get (theme_options s) ''logo_text'')"
      and "\<not> truthy (dict_get (theme_options s) ''logo'')"
    using returned [OF that(1)] that prepare_logo_returns(2) [of t] unchanged by simp
  have 3: "snd (update_config env s) \<noteq> None"
    if l: "truthy (dict_get (theme_options s) ''logo'')"
      and nd: "\<not> isinstance_dict (dict_get (theme_options s) ''logo'')"
  proof
    assume n: "snd (update_config env s) = None"
    show False
    proof (cases "truthy (dict_get (theme_options s) ''logo_text'')")
      case True
      have "snd (deprecated_logo_text s) = None"
        using n unfolding update_config_def by (rule run_steps_Cons_None)
      moreover have "snd (deprecated_logo_text s) \<noteq> None"
        using True l nd
        by (auto simp: deprecated_logo_text_def Let_def dict_get_def dict_get_default_def
            split: pyval.splits option.splits)
      ultimately show False by simp
    next
      case False
      have "prepare_logo t = (t, Some (Exn ValueError (logo_message (dict_get (theme_options t) ''logo''))))"
        by (rule prepare_logo_raises) (use l nd unchanged [OF False] in simp_all)
      with returned [OF n] n show False by simp
    qed
  qed
  have 4: "snd (update_config env s)
        = Some (Exn ValueError (logo_message (dict_get (theme_options s) ''logo'')))"
    if l: "truthy (dict_get (theme_options s) ''logo'')"
      and nd: "\<not> isinstance_dict (dict_get (theme_options s) ''logo'')"
      and lt: "\<not> truthy (dict_get (theme_options s) ''logo_text'')"
      and il: "icon_links_ok (theme_options s)"
      and sw: "snd (check_switcher_file env s) = None"
      and an: "analytics_ok (theme_options s)"
  proof -
    have lto: "logo_text_ok (theme_options s)" using lt by (simp add: logo_text_ok_def)
    obtain t9 where u9: "update_config env s = run_steps [icon_link_shortcuts, prepare_logo] t9"
      and o9: "theme_options t9 = theme_options (fst (run_steps (steps_before_switcher env) s))"
      using reach_shortcuts [OF lto il sw an] by blast
    have "dict_get (theme_options t9) ''logo'' = dict_get (theme_options s) ''logo''"
      unfolding o9 using lt
      by (rule logo_unchanged [where env = env])
         (auto simp: steps_before_switcher_def steps_before_logo_def)
    moreover have "icon_links_ok (theme_options t9)"
      using il by (simp add: o9 pre_icon_links_ok)
    ultimately show ?thesis
      using l nd
      by (auto simp: u9 icon_link_shortcuts_def prepare_logo_def Let_def set_option_def
          dict_get_set icon_links_ok_def split: pyval.splits)
  qed
  have 5: "contains_str (type_name v) (logo_message v)" for v
    using contains_str_append [of "type_name v" "''Incorrect logo config type: <class '' @ [CHR 0x27]"
        "[CHR 0x27] @ ''>''"]
    by (simp add: logo_message_def class_repr_def)
  from 1 2 3 4 5 show ?thesis by blast
qed

text \<open>
  The theorem at a logo given as a file name (the \<^verbatim>\<open>ValueError\<close>) and at a logo given
  as the empty string (the empty dictionary).
\<close>

theorem logo_is_dict_after_update_witness:
  "snd (update_config sample_env (app_with [(''logo'', PStr ''logo.png'')]))
     = Some (Exn ValueError ''Incorrect logo config type: <class 'str'>'')
   \<and> dict_get (theme_options (fst (update_config sample_env (app_with [(''logo'', PStr [])]))))
       ''logo'' = PDict []"
proof -
  let ?s = "app_with [(''logo'', PStr ''logo.png'')]"
  let ?s' = "app_with [(''logo'', PStr [])]"
  have a: "truthy (dict_get (theme_options ?s) ''logo'')"
    "\<not> isinstance_dict (dict_get (theme_options ?s) ''logo'')"
    "\<not> truthy (dict_get (theme_options ?s) ''logo_text'')"
    "icon_links_ok (theme_options ?s)"
    "snd (check_switcher_file sample_env ?s) = None"
    "analytics_ok (theme_options ?s)"
    by (simp_all add: app_with_def dict_get_def dict_get_default_def icon_links_ok_def
        analytics_ok_def check_switcher_file_def)
  have b: "snd (update_config sample_env ?s') = None"
    by code_simp
  have c: "\<not> truthy (dict_get (theme_options ?s') ''logo_text'')"
    "\<not> truthy (dict_get (theme_options ?s') ''logo'')"
    by (simp_all add: app_with_def dict_get_def dict_get_default_def)
  have "snd (update_config sample_env ?s)
          = Some (Exn ValueError (logo_message (dict_get (theme_options ?s) ''logo'')))"
    using logo_is_dict_after_update [of sample_env ?s] a by blast
  moreover have "dict_get (theme_options (fst (update_config sample_env ?s'))) ''logo'' = PDict []"
    using logo_is_dict_after_update [of sample_env ?s'] b c by blast
  ultimately show ?thesis
    by (simp add: app_with_def dict_get_def dict_get_default_def logo_message_def class_repr_def)
qed

subsection \<open>C10: the switcher check switched off\<close>

text \<open>
  C10. If the option \<^verbatim>\<open>check_switcher\<close> is falsy, or the option \<^verbatim>\<open>switcher\<close> is not a
  dictionary, then \<open>update_config\<close> reads neither the network nor a file, logs no
  warning about the switcher, and behaves in every respect (state and exception) like
  the sequence of its other blocks, with the switcher check left out: the check raises
  nothing, whatever the switcher option holds.
\<close>

theorem switcher_check_skipped:
  assumes "\<not> truthy (dict_get_default (theme_options s) ''check_switcher'' (PBool True))
           \<or> \<not> isinstance_dict (dict_get (theme_options s) ''switcher'')"
  shows "io_trace (fst (update_config env s)) = io_trace s
       \<and> filter is_switcher_warning (warnings (fst (update_config env s)))
           = filter is_switcher_warning (warnings s)
       \<and> update_config env s
           = run_steps (steps_before_switcher env @ steps_after_switcher env) s"
proof (cases "run_steps (steps_before_switcher env) s")
  case (Pair t r)
  have t: "t = fst (run_steps (steps_before_switcher env) s)" using Pair by simp
  have io: "io_trace t = io_trace s" unfolding t by (rule pre_io)
  have ws: "filter is_switcher_warning (warnings t) = filter is_switcher_warning (warnings s)"
    unfolding t by (rule pre_switcher_warnings)
  show ?thesis
  proof (cases r)
    case (Some e)
    with Pair io ws show ?thesis
      by (simp add: update_config_split run_steps_append)
  next
    case None
    have "dict_get_default (theme_options t) ''check_switcher'' (PBool True)
            = dict_get_default (theme_options s) ''check_switcher'' (PBool True)"
      and "dict_get (theme_options t) ''switcher'' = dict_get (theme_options s) ''switcher''"
      unfolding t by (simp_all add: pre_get_default pre_get)
    with assms have off: "check_switcher_file env t = (t, None)"
      by (intro gate_off) simp
    have eq: "update_config env s = run_steps (steps_after_switcher env) t"
      using Pair None off by (simp add: update_config_split run_steps_append)
    have eq': "run_steps (steps_before_switcher env @ steps_after_switcher env) s
                 = run_steps (steps_after_switcher env) t"
      using Pair None by (simp add: run_steps_append)
    show ?thesis
      using io ws by (simp add: eq eq' post_io post_warnings)
  qed
qed

text \<open>
  The theorem at a switcher whose URL the sample world cannot reach, with
  \<^verbatim>\<open>check_switcher\<close> set to \<^verbatim>\<open>False\<close>: nothing is read, nothing is logged about it,
  and the function returns normally.
\<close>

theorem switcher_check_skipped_witness:
  "io_trace (fst (update_config sample_env
       (app_with [(''switcher'', PDict [(''json_url'', PStr ''https://example.org/none.json'')]),
                  (''check_switcher'', PBool False)]))) = []
   \<and> filter is_switcher_warning (warnings (fst (update_config sample_env
       (app_with [(''switcher'', PDict [(''json_url'', PStr ''https://example.org/none.json'')]),
                  (''check_switcher'', PBool False)])))) = []"
proof -
  let ?s = "app_with [(''switcher'', PDict [(''json_url'', PStr ''https://example.org/none.json'')]),
                      (''check_switcher'', PBool False)]"
  have h: "\<not> truthy (dict_get_default (theme_options ?s) ''check_switcher'' (PBool True))
           \<or> \<not> isinstance_dict (dict_get (theme_options ?s) ''switcher'')"
    by (simp add: app_with_def dict_get_default_def)
  note skipped = switcher_check_skipped [OF h, of sample_env]
  have a: "io_trace (fst (update_config sample_env ?s)) = io_trace ?s"
    using skipped by (rule conjunct1)
  have b: "filter is_switcher_warning (warnings (fst (update_config sample_env ?s)))
             = filter is_switcher_warning (warnings ?s)"
    using skipped by blast
  show ?thesis unfolding a b by (simp add: app_with_def)
qed

section \<open>Properties of \<open>update_and_remove_templates\<close>\<close>

subsection \<open>C6: template sections given as a string\<close>

text \<open>
  C6 as stated, read as the value the hook leaves in the section, fails where a template
  renders to nothing: line 236 filters the list with \<^verbatim>\<open>_remove_empty_templates\<close>. In
  the sample world the template \<^verbatim>\<open>empty.html\<close> renders to white space, and the section
  \<^verbatim>\<open>"theme-version, empty"\<close> is left as \<^verbatim>\<open>["theme-version.html"]\<close>, one entry short of
  the two the string names.
\<close>

theorem template_section_pruned_counterexample:
  "section_entries ''theme-version, empty'' = [''theme-version.html'', ''empty.html'']
   \<and> snd (update_and_remove_templates sample_env ''index''
            (page_with [(''theme_footer_end'', PStr ''theme-version, empty'')])) = None
   \<and> dict_get (page_context (fst (update_and_remove_templates sample_env ''index''
            (page_with [(''theme_footer_end'', PStr ''theme-version, empty'')]))))
         ''theme_footer_end''
       = PList [PStr ''theme-version.html'']"
  by code_simp

text \<open>
  C6 (as amended). Let a section of \<open>template_sections\<close> hold a non-empty string, and let
  the loop over the sections raise nothing. Then the hook leaves in the section the list
  of the comma-separated entries of the string, in order, each stripped of surrounding
  white space and, if it has no extension, with \<^verbatim>\<open>.html\<close> appended (an entry with an
  extension is unchanged), from which the entries that \<^verbatim>\<open>_remove_empty_templates\<close>
  rejects have been removed: those whose template renders to white space only and whose
  name does not end in \<^verbatim>\<open>sidebar-nav-bs.html\<close> or \<^verbatim>\<open>navbar-nav.html\<close>. Where no entry is
  rejected, the section holds the full list.
\<close>

theorem template_section_split_and_pruned:
  assumes "sec \<in> set template_sections"
    and "dict_get (page_context p) sec = PStr s" and "s \<noteq> []"
    and "snd (run_steps (map (process_section env) template_sections) p) = None"
  shows "dict_get (page_context (fst (update_and_remove_templates env pagename p))) sec
           = PList (map PStr (filter (keeps_template env (render_context env sec s p))
                                (section_entries s)))
       \<and> ((\<forall>t\<in>set (section_entries s). keeps_template env (render_context env sec s p) t) \<longrightarrow>
            dict_get (page_context (fst (update_and_remove_templates env pagename p))) sec
              = PList (map PStr (section_entries s)))"
proof -
  obtain post where ts: "template_sections = sections_before sec @ sec # post"
    and npre: "sec \<notin> set (sections_before sec)" and npost: "sec \<notin> set post"
    using template_sections_split [OF assms(1)] by blast
  let ?f = "process_section env"
  let ?p1 = "fst (run_steps (map ?f (sections_before sec)) p)"
  let ?p2 = "fst (?f sec ?p1)"
  have all: "snd (run_steps (map ?f (sections_before sec) @ (?f sec # map ?f post)) p) = None"
    using assms(4) by (subst (asm) ts) simp
  have rest: "snd (run_steps (?f sec # map ?f post) ?p1) = None"
    using run_steps_append_None(2) [OF all] all by simp
  have one: "snd (?f sec ?p1) = None"
    using rest by (rule run_steps_Cons_None)
  have l: "run_steps (map ?f template_sections) p = run_steps (map ?f post) ?p2"
  proof -
    have "run_steps (map ?f template_sections) p = run_steps (?f sec # map ?f post) ?p1"
      using run_steps_append_None(2) [OF all] by (subst ts) simp
    also have "\<dots> = run_steps (map ?f post) ?p2"
      using one by (cases "?f sec ?p1") simp
    finally show ?thesis .
  qed
  have s1: "dict_get (page_context ?p1) sec = PStr s"
    using assms(2) loop_map_of [OF npre, of env p] by (simp add: dict_get_def dict_get_default_def)
  have s2: "dict_get (page_context ?p2) sec
      = PList (map PStr (filter (keeps_template env (render_context env sec s p)) (section_entries s)))"
    using process_section_string [OF s1 assms(3) one] by (simp add: render_context_def)
  obtain p3 where l3: "run_steps (map ?f template_sections) p = (p3, None)"
    using assms(4) by (cases "run_steps (map ?f template_sections) p") auto
  have p3: "p3 = fst (run_steps (map ?f post) ?p2)" using l3 unfolding l by simp
  have s3: "map_of (page_context p3) sec = map_of (page_context ?p2) sec"
    unfolding p3 by (rule loop_map_of [OF npost])
  have ne: "sec \<noteq> ''css_files''" "sec \<noteq> ''theme_version''"
    using assms(1) by (auto simp: template_sections_def)
  obtain p4 r where c: "remove_theme_css p3 = (p4, r)" by (cases "remove_theme_css p3")
  have s4: "map_of (page_context p4) sec = map_of (page_context p3) sec"
    using c ne(1)
    by (auto simp: remove_theme_css_def Let_def map_of_dict_set
        split: if_splits sum.splits bool.splits pyval.splits)
  have "map_of (page_context (fst (update_and_remove_templates env pagename p))) sec
          = map_of (page_context p4) sec"
    using c ne(2) by (cases r) (simp_all add: update_and_remove_templates_split l3 tail_map_of)
  then have "dict_get (page_context (fst (update_and_remove_templates env pagename p))) sec
          = dict_get (page_context ?p2) sec"
    using s3 s4 by (simp add: dict_get_def dict_get_default_def)
  with s2 have "dict_get (page_context (fst (update_and_remove_templates env pagename p))) sec
      = PList (map PStr (filter (keeps_template env (render_context env sec s p)) (section_entries s)))"
    by simp
  then show ?thesis by simp
qed

text \<open>
  The theorem in the sample world, at a navbar section with one entry without and one
  with an extension; both templates render to something.
\<close>

theorem template_section_split_and_pruned_witness:
  "dict_get (page_context (fst (update_and_remove_templates sample_env ''index''
       (page_with [(''theme_navbar_end'', PStr ''theme-switcher, navbar-icon-links.html '')]))))
     ''theme_navbar_end''
     = PList [PStr ''theme-switcher.html'', PStr ''navbar-icon-links.html'']"
proof -
  let ?s = "''theme-switcher, navbar-icon-links.html ''"
  let ?p = "page_with [(''theme_navbar_end'', PStr ?s)]"
  have h1: "''theme_navbar_end'' \<in> set template_sections"
    by (simp add: template_sections_def)
  have h2: "dict_get (page_context ?p) ''theme_navbar_end'' = PStr ?s"
    by (simp add: page_with_def dict_get_def dict_get_default_def)
  have h3: "?s \<noteq> []" by simp
  have h4: "snd (run_steps (map (process_section sample_env) template_sections) ?p) = None"
    by code_simp
  have v: "PList (map PStr (filter
              (keeps_template sample_env (render_context sample_env ''theme_navbar_end'' ?s ?p))
              (section_entries ?s)))
            = PList [PStr ''theme-switcher.html'', PStr ''navbar-icon-links.html'']"
    by code_simp
  have "dict_get (page_context (fst (update_and_remove_templates sample_env ''index'' ?p)))
          ''theme_navbar_end''
        = PList (map PStr (filter
              (keeps_template sample_env (render_context sample_env ''theme_navbar_end'' ?s ?p))
              (section_entries ?s)))"
    using template_section_split_and_pruned [OF h1 h2 h3 h4, of "''index''"] by (rule conjunct1)
  then show ?thesis unfolding v .
qed

subsection \<open>C7: the duplicate theme stylesheet\<close>

text \<open>
  C7. Let the loop over the template sections, which runs before, raise nothing. If the
  context holds a list under \<^verbatim>\<open>css_files\<close>, the hook leaves under \<^verbatim>\<open>css_files\<close> that
  list with the first occurrence of \<^verbatim>\<open>_static/styles/pydata-sphinx-theme.css\<close> removed:
  the list itself when the entry does not occur; otherwise the elements before that
  occurrence followed by the elements after it, so exactly one occurrence is gone and
  every other element keeps its place in the order. A context without \<^verbatim>\<open>css_files\<close>
  stays without it.
\<close>

theorem theme_css_removed_once:
  assumes "snd (run_steps (map (process_section env) template_sections) p) = None"
  shows "(\<forall>css. dict_get (page_context p) ''css_files'' = PList css \<longrightarrow>
            dict_get (page_context (fst (update_and_remove_templates env pagename p))) ''css_files''
              = PList (remove1 (PStr theme_css_name) css)
            \<and> (PStr theme_css_name \<notin> set css \<longrightarrow> remove1 (PStr theme_css_name) css = css)
            \<and> (PStr theme_css_name \<in> set css \<longrightarrow>
                 (\<exists>xs ys. css = xs @ PStr theme_css_name # ys \<and> PStr theme_css_name \<notin> set xs
                          \<and> remove1 (PStr theme_css_name) css = xs @ ys)))
       \<and> (\<not> dict_has (page_context p) ''css_files'' \<longrightarrow>
            \<not> dict_has (page_context (fst (update_and_remove_templates env pagename p))) ''css_files'')"
proof -
  obtain p1 where l: "run_steps (map (process_section env) template_sections) p = (p1, None)"
    using assms by (cases "run_steps (map (process_section env) template_sections) p") auto
  have p1: "p1 = fst (run_steps (map (process_section env) template_sections) p)"
    using l by simp
  have m: "map_of (page_context p1) ''css_files'' = map_of (page_context p) ''css_files''"
    unfolding p1 by (rule loop_map_of) (simp add: template_sections_def)
  have a: "dict_get (page_context (fst (update_and_remove_templates env pagename p))) ''css_files''
              = PList (remove1 (PStr theme_css_name) css)"
    if c: "dict_get (page_context p) ''css_files'' = PList css" for css
  proof -
    have c1: "dict_get (page_context p1) ''css_files'' = PList css"
      using c m by (simp add: dict_get_def dict_get_default_def)
    let ?p2 = "p1\<lparr>page_context := (if PStr theme_css_name \<in> set css
                                 then dict_set ''css_files'' (PList (remove1 (PStr theme_css_name) css))
                                        (page_context p1)
                                 else page_context p1)\<rparr>"
    have u: "update_and_remove_templates env pagename p = run_steps (steps_after_css env pagename) ?p2"
      by (simp add: update_and_remove_templates_split l remove_theme_css_list [OF c1])
    have "dict_get (page_context ?p2) ''css_files'' = PList (remove1 (PStr theme_css_name) css)"
      using c1 by (simp add: dict_get_set remove1_idem)
    then show ?thesis
      unfolding u by (simp add: dict_get_def dict_get_default_def tail_map_of)
  qed
  have b: "\<not> dict_has (page_context (fst (update_and_remove_templates env pagename p))) ''css_files''"
    if n: "\<not> dict_has (page_context p) ''css_files''"
  proof -
    have n1: "\<not> dict_has (page_context p1) ''css_files''"
      using n m by (simp add: dict_has_def)
    have u: "update_and_remove_templates env pagename p = run_steps (steps_after_css env pagename) p1"
      by (simp add: update_and_remove_templates_split l remove_theme_css_absent [OF n1])
    show ?thesis
      unfolding u using n1 by (simp add: dict_has_def tail_map_of)
  qed
  have r: "remove1 x css = css" if "x \<notin> set css" for x :: pyval and css
    using that by (rule remove1_idem)
  have r': "\<exists>xs ys. css = xs @ x # ys \<and> x \<notin> set xs \<and> remove1 x css = xs @ ys"
    if mem: "x \<in> set css" for x :: pyval and css
  proof -
    obtain xs ys where "css = xs @ x # ys" and "x \<notin> set xs"
      using split_list_first [OF mem] by blast
    then show ?thesis by (auto simp: remove1_append)
  qed
  from a b r r' show ?thesis by blast
qed

text \<open>The theorem at a list that names the theme stylesheet twice, between other files.\<close>

theorem theme_css_removed_once_witness:
  "dict_get (page_context (fst (update_and_remove_templates sample_env ''index''
       (page_with [(''css_files'', PList [PStr ''_static/pygments.css'', PStr theme_css_name,
                                          PStr ''_static/custom.css'', PStr theme_css_name])]))))
     ''css_files''
     = PList [PStr ''_static/pygments.css'', PStr ''_static/custom.css'', PStr theme_css_name]"
proof -
  let ?css = "[PStr ''_static/pygments.css'', PStr theme_css_name,
               PStr ''_static/custom.css'', PStr theme_css_name]"
  let ?p = "page_with [(''css_files'', PList ?css)]"
  have h: "snd (run_steps (map (process_section sample_env) template_sections) ?p) = None"
    by code_simp
  have c: "dict_get (page_context ?p) ''css_files'' = PList ?css"
    by (simp add: page_with_def dict_get_def dict_get_default_def)
  have "dict_get (page_context (fst (update_and_remove_templates sample_env ''index'' ?p)))
          ''css_files'' = PList (remove1 (PStr theme_css_name) ?css)"
    using theme_css_removed_once [OF h, of "''index''"] c by blast
  then show ?thesis by (simp add: theme_css_name_def)
qed

end
